theory Spec2Isabelle
  imports Main
begin

section \<open>Python values used by the storage helpers\<close>

text \<open>
  A file name is a Python \<open>str\<close>. It is modelled as a \<open>string\<close> whose characters are the
  code points below 256. On that range \<open>str.lower()\<close> maps \<open>A\<close>..\<open>Z\<close> and the
  capital letters U+00C0..U+00DE (without the multiplication sign U+00D7) to the code
  point 32 above, and leaves every other character as it is.
\<close>

datatype py_error = IndexError | KeyError string | OtherException string

definition lower_char :: "char \<Rightarrow> char" where
  "lower_char c =
     (let n = (of_char c :: nat)
      in if (65 \<le> n \<and> n \<le> 90) \<or> (192 \<le> n \<and> n \<le> 222 \<and> n \<noteq> 215)
         then char_of (n + 32) else c)"

definition lower :: "string \<Rightarrow> string" where
  "lower s = map lower_char s"

text \<open>
  \<open>filename.rsplit('.', 1)\<close>: at most one split, at the last dot. A name without a dot comes
  back as a one-element list.
\<close>

definition rsplit_dot :: "string \<Rightarrow> string list" where
  "rsplit_dot s =
     (if CHR ''.'' \<in> set s
      then [rev (tl (dropWhile (\<lambda>c. c \<noteq> CHR ''.'') (rev s))),
            rev (takeWhile (\<lambda>c. c \<noteq> CHR ''.'') (rev s))]
      else [s])"

text \<open>\<open>xs[i]\<close> for a non-negative index: out of range raises \<open>IndexError\<close>.\<close>

definition py_index :: "'a list \<Rightarrow> nat \<Rightarrow> py_error + 'a" where
  "py_index xs i = (if i < length xs then Inr (xs ! i) else Inl IndexError)"

section \<open>filesystem\_storage.py\<close>

definition ALLOWED_EXTENSIONS :: "string set" where
  "ALLOWED_EXTENSIONS = {''jpg'', ''jpeg'', ''png'', ''gif'', ''mp4'', ''mov'', ''webm''}"

text \<open>
  \<open>allowed_file\<close>: the \<open>and\<close> is short-circuit, so the index expression is evaluated only
  when the name has a dot.
\<close>

definition allowed_file :: "string \<Rightarrow> py_error + bool" where
  "allowed_file filename =
     (if CHR ''.'' \<in> set filename
      then (case py_index (rsplit_dot filename) 1 of
              Inl e \<Rightarrow> Inl e
            | Inr part \<Rightarrow> Inr (lower part \<in> ALLOWED_EXTENSIONS))
      else Inr False)"

text \<open>\<open>get_file_type\<close>: the index expression is evaluated first, with no test for a dot.\<close>

definition get_file_type :: "string \<Rightarrow> py_error + string option" where
  "get_file_type filename =
     (case py_index (rsplit_dot filename) 1 of
        Inl e \<Rightarrow> Inl e
      | Inr part \<Rightarrow>
          (let extension = lower part
           in if extension \<in> set [''jpg'', ''jpeg'', ''png'', ''gif''] then Inr (Some ''image'')
              else if extension \<in> set [''mp4'', ''mov'', ''webm''] then Inr (Some ''video'')
              else Inr None))"

section \<open>cloudinary\_storage.py: the file-name helpers\<close>

definition cloudinary_ALLOWED_EXTENSIONS :: "string set" where
  "cloudinary_ALLOWED_EXTENSIONS =
     {''jpg'', ''jpeg'', ''png'', ''gif'', ''mp4'', ''mov'', ''webm''}"

definition is_allowed_file :: "string \<Rightarrow> py_error + bool" where
  "is_allowed_file filename =
     (if CHR ''.'' \<in> set filename
      then (case py_index (rsplit_dot filename) 1 of
              Inl e \<Rightarrow> Inl e
            | Inr part \<Rightarrow> Inr (lower part \<in> cloudinary_ALLOWED_EXTENSIONS))
      else Inr False)"

definition cloudinary_get_file_type :: "string \<Rightarrow> py_error + string option" where
  "cloudinary_get_file_type filename =
     (case py_index (rsplit_dot filename) 1 of
        Inl e \<Rightarrow> Inl e
      | Inr part \<Rightarrow>
          (let extension = lower part
           in if extension \<in> set [''jpg'', ''jpeg'', ''png'', ''gif''] then Inr (Some ''image'')
              else if extension \<in> set [''mp4'', ''mov'', ''webm''] then Inr (Some ''video'')
              else Inr None))"

section \<open>filesystem\_storage.py: save\_file\<close>

text \<open>
  What \<open>save_file\<close> takes from outside the repository enters as an environment: the working
  directory, werkzeug's \<open>secure_filename\<close>, and the write of the opened file, which either
  raises (the text of the exception) or gives the file system with the file written.
  The logger's records are returned, since the branches differ in what they log.
\<close>

datatype log_entry = LogError string | LogWarning string | LogInfo string

record 'fs fs_env =
  getcwd :: string
  secure_filename :: "string \<Rightarrow> string"
  write_file :: "'fs \<Rightarrow> string \<Rightarrow> string \<Rightarrow> string + 'fs"

definition str_error :: "py_error \<Rightarrow> string" where
  "str_error e =
     (case e of
        IndexError \<Rightarrow> ''list index out of range''
      | KeyError k \<Rightarrow> [CHR 0x27] @ k @ [CHR 0x27]
      | OtherException m \<Rightarrow> m)"

text \<open>\<open>os.path.join\<close> of two components on POSIX.\<close>

definition path_join :: "string \<Rightarrow> string \<Rightarrow> string" where
  "path_join a b =
     (if b \<noteq> [] \<and> hd b = CHR ''/'' then b
      else if a = [] \<or> last a = CHR ''/'' then a @ b
      else a @ ''/'' @ b)"

definition UPLOAD_FOLDER :: "'fs fs_env \<Rightarrow> string" where
  "UPLOAD_FOLDER env = path_join (path_join (getcwd env) ''static'') ''uploads''"

text \<open>\<open>custom_filename or original_filename\<close>: \<open>None\<close> and the empty string are falsy.\<close>

definition custom_or_original :: "string option \<Rightarrow> string \<Rightarrow> string" where
  "custom_or_original custom_filename original_filename =
     (case custom_filename of
        None \<Rightarrow> original_filename
      | Some c \<Rightarrow> if c = [] then original_filename else c)"

definition save_file ::
  "'fs fs_env \<Rightarrow> 'fs \<Rightarrow> string \<Rightarrow> string \<Rightarrow> string option
     \<Rightarrow> log_entry list \<times> (string option \<times> string option) \<times> 'fs" where
  "save_file env fs file_data original_filename custom_filename =
     (case allowed_file original_filename of
        Inl e \<Rightarrow> ([LogError (''Error saving file: '' @ str_error e)], (None, None), fs)
      | Inr allowed \<Rightarrow>
          if \<not> allowed
          then ([LogError (''File type not allowed: '' @ original_filename)], (None, None), fs)
          else
            (case get_file_type original_filename of
               Inl e \<Rightarrow> ([LogError (''Error saving file: '' @ str_error e)], (None, None), fs)
             | Inr file_type \<Rightarrow>
                 if file_type = None \<or> file_type = Some []
                 then ([LogError (''Unknown file type: '' @ original_filename)], (None, None), fs)
                 else
                   (let secure_name =
                          secure_filename env (custom_or_original custom_filename original_filename);
                        subfolder = (if file_type = Some ''image'' then ''images'' else ''videos'');
                        file_path = path_join (path_join (UPLOAD_FOLDER env) subfolder) secure_name
                    in case write_file env fs file_path file_data of
                         Inl msg \<Rightarrow> ([LogError (''Error saving file: '' @ msg)], (None, None), fs)
                       | Inr fs' \<Rightarrow>
                           ([LogInfo (''File saved successfully: '' @ file_path)],
                            (Some (''/static/uploads/'' @ subfolder @ ''/'' @ secure_name), file_type),
                            fs'))))"

section \<open>Calls that leave the process\<close>

text \<open>
  The storage clients call a provider's SDK or send an HTTP request. What the provider
  answers is an input of the model (a function from the call to its outcome, \<open>Inl\<close> the
  text of the exception raised); the calls made are returned in order, so that a theorem
  can say which calls an operation makes and how many.
\<close>

record upload_options =
  opt_folder :: string
  opt_resource_type :: string
  opt_public_id :: "string option"

datatype ext_call =
    CloudinaryUpload string upload_options
  | SupabaseUpload string string string string
  | SupabaseGetPublicUrl string string
  | RequestsPost string "(string \<times> string) list" string

definition truthy_str :: "string option \<Rightarrow> bool" where
  "truthy_str v = (case v of None \<Rightarrow> False | Some s \<Rightarrow> s \<noteq> [])"

section \<open>cloudinary\_storage.py: CloudinaryStorage\<close>

text \<open>
  The three credentials are read from the environment; each may be absent.
  \<open>cloudinary.uploader.upload\<close> answers with a dictionary or raises.
\<close>

record cloudinary_env =
  CLOUDINARY_CLOUD_NAME :: "string option"
  CLOUDINARY_API_KEY :: "string option"
  CLOUDINARY_API_SECRET :: "string option"
  uploader_upload :: "string \<Rightarrow> upload_options \<Rightarrow> string + (string \<times> string) list"

text \<open>\<open>__init__\<close>: the flag is set only when all three credentials are truthy.\<close>

definition is_configured :: "cloudinary_env \<Rightarrow> bool" where
  "is_configured env =
     (if truthy_str (CLOUDINARY_CLOUD_NAME env) \<and> truthy_str (CLOUDINARY_API_KEY env)
         \<and> truthy_str (CLOUDINARY_API_SECRET env)
      then True else False)"

definition cloudinary_upload_file ::
  "cloudinary_env \<Rightarrow> string \<Rightarrow> string \<Rightarrow> string option \<Rightarrow> string
     \<Rightarrow> log_entry list \<times> ext_call list \<times> (string option \<times> string option)" where
  "cloudinary_upload_file env file_data folder public_id resource_type =
     (if \<not> is_configured env
      then ([LogError ''Cloudinary not configured, cannot upload file''], [], (None, None))
      else
        (let options = \<lparr>opt_folder = folder, opt_resource_type = resource_type,
                          opt_public_id = (if truthy_str public_id then public_id else None)\<rparr>;
             started = LogInfo (''Uploading file to Cloudinary, resource_type='' @ resource_type);
             call = CloudinaryUpload file_data options
         in case uploader_upload env file_data options of
              Inl e \<Rightarrow>
                ([started, LogError (''Error uploading file to Cloudinary: '' @ e)], [call],
                 (None, None))
            | Inr response \<Rightarrow>
                (case map_of response ''secure_url'' of
                   None \<Rightarrow>
                     ([started,
                       LogError (''Error uploading file to Cloudinary: ''
                                 @ str_error (KeyError ''secure_url''))],
                      [call], (None, None))
                 | Some file_url \<Rightarrow>
                     (let file_type =
                            (if map_of response ''resource_type'' = Some ''image''
                             then ''image'' else ''video'')
                      in ([started,
                           LogInfo (''File uploaded successfully to Cloudinary: '' @ file_url)],
                          [call], (Some file_url, Some file_type))))))"

section \<open>supabase\_client.py: SupabaseClient.upload\_file\<close>

record supabase_env =
  SUPABASE_URL :: "string option"
  SUPABASE_KEY :: "string option"
  storage_upload :: "string \<Rightarrow> string \<Rightarrow> string \<Rightarrow> string \<Rightarrow> string + unit"
  storage_get_public_url :: "string \<Rightarrow> string \<Rightarrow> string + string"
  requests_post :: "string \<Rightarrow> (string \<times> string) list \<Rightarrow> string \<Rightarrow> string + (nat \<times> string)"

text \<open>\<open>__init__\<close>: \<open>self.supabase\<close> is a client only when the URL and the key are both truthy.\<close>

definition supabase_initialized :: "supabase_env \<Rightarrow> bool" where
  "supabase_initialized env =
     (truthy_str (SUPABASE_URL env) \<and> truthy_str (SUPABASE_KEY env))"

text \<open>Decimal text of a length, for the f-strings.\<close>

fun str_nat :: "nat \<Rightarrow> string" where
  "str_nat n =
     (if n < 10 then [char_of (48 + n)]
      else str_nat (n div 10) @ [char_of (48 + n mod 10)])"

text \<open>
  The fallback of \<open>upload_file\<close>: the body of the inner \<open>except\<close>. An exception raised by
  \<open>requests.post\<close> reaches the outer \<open>except\<close>.
\<close>

definition supabase_direct_upload ::
  "supabase_env \<Rightarrow> string \<Rightarrow> string \<Rightarrow> string \<Rightarrow> string
     \<Rightarrow> log_entry list \<times> ext_call list \<times> string option" where
  "supabase_direct_upload env inner_e file_data file_path content_type =
     (let base = (case SUPABASE_URL env of None \<Rightarrow> ''None'' | Some u \<Rightarrow> u);
          key = (case SUPABASE_KEY env of None \<Rightarrow> ''None'' | Some k \<Rightarrow> k);
          warned = LogWarning (''Python client upload failed: '' @ inner_e
                               @ '', trying direct API...'');
          url = base @ ''/storage/v1/object/'' @ ''avatars'' @ ''/'' @ file_path;
          headers = [(''apikey'', key), (''Authorization'', ''Bearer '' @ key),
                     (''Content-Type'', content_type)];
          call = RequestsPost url headers file_data
      in case requests_post env url headers file_data of
           Inl e \<Rightarrow>
             ([warned, LogError (''Error uploading file to Supabase: '' @ e)], [call], None)
         | Inr (status_code, text) \<Rightarrow>
             if status_code = 200
             then ([warned, LogInfo (''File uploaded successfully with direct API: '' @ file_path)],
                   [call],
                   Some (base @ ''/storage/v1/object/public/'' @ ''avatars'' @ ''/'' @ file_path))
             else ([warned,
                    LogError (''Upload failed with status '' @ str_nat status_code @ '': '' @ text)],
                   [call], None))"

definition supabase_upload_file ::
  "supabase_env \<Rightarrow> string \<Rightarrow> string \<Rightarrow> string
     \<Rightarrow> log_entry list \<times> ext_call list \<times> string option" where
  "supabase_upload_file env file_data file_path content_type =
     (if \<not> supabase_initialized env
      then ([LogError ''Supabase client not initialized''], [], None)
      else
        (let attempt = LogInfo (''Attempting to upload file: '' @ file_path @ '', size: ''
                                @ str_nat (length file_data) @ '' bytes'');
             up = SupabaseUpload ''avatars'' file_path file_data content_type;
             gu = SupabaseGetPublicUrl ''avatars'' file_path
         in case storage_upload env ''avatars'' file_path file_data content_type of
              Inl inner_e \<Rightarrow>
                (case supabase_direct_upload env inner_e file_data file_path content_type of
                   (logs, calls, r) \<Rightarrow> (attempt # logs, up # calls, r))
            | Inr _ \<Rightarrow>
                (case storage_get_public_url env ''avatars'' file_path of
                   Inl inner_e \<Rightarrow>
                     (case supabase_direct_upload env inner_e file_data file_path content_type of
                        (logs, calls, r) \<Rightarrow> (attempt # logs, up # gu # calls, r))
                 | Inr file_url \<Rightarrow>
                     ([attempt,
                       LogInfo (''File uploaded successfully with Python client: '' @ file_url)],
                      [up, gu], Some file_url))))"

section \<open>models.py: the tables\<close>

text \<open>
  One record per row, the columns the routes read or write; the time stamps filled in by
  column defaults and the profile columns that no route sets are left out. A table is the
  list of its rows in insertion order. A primary key is assigned as SQLite assigns an
  \<open>INTEGER PRIMARY KEY\<close>: one more than the largest key in the table, 1 in an empty table.
\<close>

record user =
  u_id :: int
  u_username :: string
  u_email :: string
  u_password_hash :: string

record post =
  p_id :: int
  p_title :: string
  p_description :: string
  p_file_url :: string
  p_file_type :: string
  p_user_id :: int

record collection =
  c_id :: int
  c_name :: string
  c_description :: string
  c_user_id :: int

record save =
  s_id :: int
  s_post_id :: int
  s_collection_id :: int

record db =
  users :: "user list"
  posts :: "post list"
  collections :: "collection list"
  saves :: "save list"

definition empty_db :: db where
  "empty_db = \<lparr>users = [], posts = [], collections = [], saves = []\<rparr>"

definition next_id :: "int list \<Rightarrow> int" where
  "next_id ids = foldr max ids 0 + 1"

section \<open>routes.py\<close>

datatype http_method = GET | POST

text \<open>
  A response: the JSON bodies of the API routes with their status, \<open>abort(404)\<close> of
  \<open>get_or_404\<close>, an uncaught exception, a redirect or a rendered template with the messages
  flashed (and, for the upload page, its \<open>uploads_disabled\<close> flag).
\<close>

datatype response =
    JsonSuccess
  | JsonError string nat
  | Abort404
  | ServerError string
  | RedirectTo string "string list"
  | RenderTemplate string "string list" "bool option"

definition status_code :: "response \<Rightarrow> nat" where
  "status_code r =
     (case r of
        JsonSuccess \<Rightarrow> 200
      | JsonError _ code \<Rightarrow> code
      | Abort404 \<Rightarrow> 404
      | ServerError _ \<Rightarrow> 500
      | RedirectTo _ _ \<Rightarrow> 302
      | RenderTemplate _ _ _ \<Rightarrow> 200)"

text \<open>
  \<open>current_user\<close>: the session holds a user id or nothing, and \<open>load_user\<close> looks the id up.
  \<open>login_required\<close> sends an anonymous request to the login view.
\<close>

definition load_user :: "db \<Rightarrow> int option \<Rightarrow> user option" where
  "load_user d session =
     (case session of
        None \<Rightarrow> None
      | Some uid \<Rightarrow> find (\<lambda>u. u_id u = uid) (users d))"

definition login_redirect :: response where
  "login_redirect = RedirectTo ''login'' [''Please log in to access this page.'']"

text \<open>\<open>not collection_id\<close> for the JSON field: absent, \<open>null\<close> and \<open>0\<close> are falsy.\<close>

definition falsy_id :: "int option \<Rightarrow> bool" where
  "falsy_id v = (case v of None \<Rightarrow> True | Some n \<Rightarrow> n = 0)"

text \<open>
  \<open>register\<close>. The salted hash of werkzeug's \<open>generate_password_hash\<close> enters as a function.
\<close>

definition register ::
  "(string \<Rightarrow> string) \<Rightarrow> db \<Rightarrow> int option \<Rightarrow> http_method
     \<Rightarrow> string option \<Rightarrow> string option \<Rightarrow> string option \<Rightarrow> response \<times> db" where
  "register generate_password_hash d session meth username email password =
     (if load_user d session \<noteq> None then (RedirectTo ''index'' [], d)
      else if meth = POST then
        (if \<not> truthy_str username \<or> \<not> truthy_str email \<or> \<not> truthy_str password
         then (RenderTemplate ''register.html'' [''All fields are required.''] None, d)
         else if length (the password) < 8
         then (RenderTemplate ''register.html''
                 [''Password must be at least 8 characters long.''] None, d)
         else if find (\<lambda>u. u_username u = the username) (users d) \<noteq> None
         then (RenderTemplate ''register.html'' [''Username already taken.''] None, d)
         else if find (\<lambda>u. u_email u = the email) (users d) \<noteq> None
         then (RenderTemplate ''register.html'' [''Email already registered.''] None, d)
         else
           (let new_user = \<lparr>u_id = next_id (map u_id (users d)), u_username = the username,
                              u_email = the email,
                              u_password_hash = generate_password_hash (the password)\<rparr>;
                d1 = d\<lparr>users := users d @ [new_user]\<rparr>;
                default_collection =
                  \<lparr>c_id = next_id (map c_id (collections d1)), c_name = ''Saved'',
                   c_description = ''Your saved pins'', c_user_id = u_id new_user\<rparr>;
                d2 = d1\<lparr>collections := collections d1 @ [default_collection]\<rparr>
            in (RedirectTo ''login'' [''Registration successful! Please log in.''], d2)))
      else (RenderTemplate ''register.html'' [] None, d))"

text \<open>
  \<open>upload\<close>. The uploaded file is absent (\<open>'file' not in request.files\<close>) or a file name
  with its content; \<open>unique_id\<close> is the text of the fresh UUID. Besides the response and the
  database the calls made to the storage provider are returned.
\<close>

definition upload ::
  "cloudinary_env \<Rightarrow> db \<Rightarrow> int option \<Rightarrow> http_method \<Rightarrow> (string \<times> string) option
     \<Rightarrow> string \<Rightarrow> string \<Rightarrow> string \<Rightarrow> response \<times> db \<times> ext_call list" where
  "upload env d session meth file title description unique_id =
     (case load_user d session of
        None \<Rightarrow> (login_redirect, d, [])
      | Some current_user \<Rightarrow>
          if \<not> is_configured env
          then (RenderTemplate ''upload.html''
                  [''File uploads are temporarily disabled. Please check back later.'']
                  (Some True), d, [])
          else if meth = POST then
            (case file of
               None \<Rightarrow> (RedirectTo ''upload'' [''No file part''], d, [])
             | Some (filename, file_data) \<Rightarrow>
                 if filename = [] then (RedirectTo ''upload'' [''No selected file''], d, [])
                 else
                   (case is_allowed_file filename of
                      Inl e \<Rightarrow> (ServerError (str_error e), d, [])
                    | Inr allowed \<Rightarrow>
                        if allowed then
                          (case cloudinary_upload_file env file_data ''pinspire''
                                  (Some unique_id) ''auto'' of
                             (logs, calls, (file_url, file_type)) \<Rightarrow>
                               if truthy_str file_url then
                                 (let new_post =
                                        \<lparr>p_id = next_id (map p_id (posts d)), p_title = title,
                                         p_description = description, p_file_url = the file_url,
                                         p_file_type = the file_type,
                                         p_user_id = u_id current_user\<rparr>
                                  in (RedirectTo ''profile'' [''Post uploaded successfully!''],
                                      d\<lparr>posts := posts d @ [new_post]\<rparr>, calls))
                               else
                                 (RedirectTo ''upload''
                                    [''Failed to upload file. Storage service is currently unavailable.''],
                                  d, calls))
                        else (RedirectTo ''upload'' [''File type not allowed''], d, [])))
          else (RenderTemplate ''upload.html'' [] (Some False), d, []))"

text \<open>
  \<open>save_post\<close>, lines 232 to 249: the default collection of the current user, created and
  committed when the query finds none.
\<close>

definition ensure_default_collection :: "db \<Rightarrow> int \<Rightarrow> collection \<times> db" where
  "ensure_default_collection d uid =
     (case find (\<lambda>c. c_user_id c = uid \<and> c_name c = ''Saved'') (collections d) of
        Some default_collection \<Rightarrow> (default_collection, d)
      | None \<Rightarrow>
          (let default_collection =
                 \<lparr>c_id = next_id (map c_id (collections d)), c_name = ''Saved'',
                  c_description = ''Your saved pins'', c_user_id = uid\<rparr>
           in (default_collection, d\<lparr>collections := collections d @ [default_collection]\<rparr>)))"

definition save_post :: "db \<Rightarrow> int option \<Rightarrow> int \<Rightarrow> int option \<Rightarrow> response \<times> db" where
  "save_post d session post_id collection_id =
     (case load_user d session of
        None \<Rightarrow> (login_redirect, d)
      | Some current_user \<Rightarrow>
          (case find (\<lambda>p. p_id p = post_id) (posts d) of
             None \<Rightarrow> (Abort404, d)
           | Some post \<Rightarrow>
               (case (if falsy_id collection_id
                      then (case ensure_default_collection d (u_id current_user) of
                              (default_collection, d1) \<Rightarrow> (c_id default_collection, d1))
                      else (the collection_id, d)) of
                  (cid, d1) \<Rightarrow>
                    (case find (\<lambda>c. c_id c = cid) (collections d1) of
                       None \<Rightarrow> (Abort404, d1)
                     | Some collection \<Rightarrow>
                         if c_user_id collection \<noteq> u_id current_user
                         then (JsonError ''Unauthorized'' 403, d1)
                         else
                           (case find (\<lambda>s. s_post_id s = post_id \<and> s_collection_id s = cid)
                                   (saves d1) of
                              Some existing_save \<Rightarrow>
                                (JsonError ''Post already saved to this collection'' 400, d1)
                            | None \<Rightarrow>
                                (let new_save = \<lparr>s_id = next_id (map s_id (saves d1)),
                                                  s_post_id = post_id, s_collection_id = cid\<rparr>
                                 in (JsonSuccess, d1\<lparr>saves := saves d1 @ [new_save]\<rparr>)))))))"

text \<open>
  \<open>unsave_post\<close>. Without a collection id the query joins \<open>save\<close> with \<open>collection\<close> on the
  foreign key and keeps the saves of the post whose collection belongs to the current
  user. Each save found is deleted by its primary key.
\<close>

definition delete_saves :: "db \<Rightarrow> save list \<Rightarrow> response \<times> db" where
  "delete_saves d found =
     (if found = [] then (JsonError ''Post not saved to specified collection'' 404, d)
      else (JsonSuccess,
            d\<lparr>saves := filter (\<lambda>s. s_id s \<notin> set (map s_id found)) (saves d)\<rparr>))"

definition unsave_post :: "db \<Rightarrow> int option \<Rightarrow> int \<Rightarrow> int option \<Rightarrow> response \<times> db" where
  "unsave_post d session post_id collection_id =
     (case load_user d session of
        None \<Rightarrow> (login_redirect, d)
      | Some current_user \<Rightarrow>
          if falsy_id collection_id
          then delete_saves d
                 (filter (\<lambda>s. s_post_id s = post_id \<and>
                            list_ex (\<lambda>c. c_id c = s_collection_id s \<and>
                                         c_user_id c = u_id current_user) (collections d))
                    (saves d))
          else
            (case find (\<lambda>c. c_id c = the collection_id) (collections d) of
               None \<Rightarrow> (Abort404, d)
             | Some collection \<Rightarrow>
                 if c_user_id collection \<noteq> u_id current_user
                 then (JsonError ''Unauthorized'' 403, d)
                 else delete_saves d
                        (filter (\<lambda>s. s_post_id s = post_id \<and>
                                   s_collection_id s = the collection_id) (saves d))))"

text \<open>The states the routes reach from the empty database.\<close>

inductive reachable :: "db \<Rightarrow> bool" where
  reach_empty: "reachable empty_db"
| reach_register:
    "reachable d \<Longrightarrow> reachable (snd (register h d session meth username email password))"
| reach_upload:
    "reachable d \<Longrightarrow>
     reachable (fst (snd (upload env d session meth file title description unique_id)))"
| reach_save: "reachable d \<Longrightarrow> reachable (snd (save_post d session post_id collection_id))"
| reach_unsave: "reachable d \<Longrightarrow> reachable (snd (unsave_post d session post_id collection_id))"

section \<open>Notions used in the statements\<close>

text \<open>The (post, collection) pairs of the Save rows, one per row.\<close>

definition save_pairs :: "db \<Rightarrow> (int \<times> int) list" where
  "save_pairs d = map (\<lambda>s. (s_post_id s, s_collection_id s)) (saves d)"

text \<open>The collections named \<open>Saved\<close> of a user.\<close>

definition saved_collections :: "db \<Rightarrow> int \<Rightarrow> collection list" where
  "saved_collections d uid =
     filter (\<lambda>c. c_user_id c = uid \<and> c_name c = ''Saved'') (collections d)"

text \<open>A Save row lies in a collection owned by the user.\<close>

definition owned_by :: "db \<Rightarrow> int \<Rightarrow> save \<Rightarrow> bool" where
  "owned_by d uid s =
     list_ex (\<lambda>c. c_id c = s_collection_id s \<and> c_user_id c = uid) (collections d)"

text \<open>A call that is a raw HTTP request, as opposed to a call of a provider's client library.\<close>

definition is_raw_http :: "ext_call \<Rightarrow> bool" where
  "is_raw_http c = (case c of RequestsPost _ _ _ \<Rightarrow> True | _ \<Rightarrow> False)"

text \<open>What every reachable database satisfies.\<close>

definition db_inv :: "db \<Rightarrow> bool" where
  "db_inv d =
     ((\<forall>c\<in>set (collections d). c_user_id c \<in> u_id ` set (users d) \<and> 0 < c_id c)
      \<and> (\<forall>u\<in>set (users d). length (saved_collections d (u_id u)) = 1)
      \<and> distinct (map c_id (collections d))
      \<and> distinct (map s_id (saves d))
      \<and> distinct (save_pairs d)
      \<and> (\<forall>s\<in>set (saves d). s_post_id s \<in> p_id ` set (posts d)))"

section \<open>Example inputs\<close>

text \<open>
  Storage environments: Cloudinary without its API secret (the SDK would answer if it were
  called), Cloudinary configured with an SDK call that raises, and Supabase configured
  with a client upload that raises and a direct request answered with status 503.
\<close>

definition example_unconfigured :: cloudinary_env where
  "example_unconfigured =
     \<lparr>CLOUDINARY_CLOUD_NAME = Some ''demo'', CLOUDINARY_API_KEY = Some ''key'',
      CLOUDINARY_API_SECRET = None,
      uploader_upload = (\<lambda>file_data options.
         Inr [(''secure_url'', ''https://res.example/pinspire/x.jpg''),
              (''resource_type'', ''image'')])\<rparr>"

definition example_failing_cloudinary :: cloudinary_env where
  "example_failing_cloudinary =
     \<lparr>CLOUDINARY_CLOUD_NAME = Some ''demo'', CLOUDINARY_API_KEY = Some ''key'',
      CLOUDINARY_API_SECRET = Some ''secret'',
      uploader_upload = (\<lambda>file_data options. Inl ''connection timed out'')\<rparr>"

definition example_failing_supabase :: supabase_env where
  "example_failing_supabase =
     \<lparr>SUPABASE_URL = Some ''https://sb.example'', SUPABASE_KEY = Some ''key'',
      storage_upload = (\<lambda>bucket path file_data content_type. Inl ''connection timed out''),
      storage_get_public_url = (\<lambda>bucket path. Inr (''https://sb.example/public/'' @ path)),
      requests_post = (\<lambda>url headers file_data. Inr (503, ''unavailable''))\<rparr>"

text \<open>A database with the user alice and her default collection.\<close>

definition example_alice_db :: db where
  "example_alice_db =
     \<lparr>users = [\<lparr>u_id = 1, u_username = ''alice'', u_email = ''alice@x.com'',
                 u_password_hash = ''hash''\<rparr>],
      posts = [],
      collections = [\<lparr>c_id = 1, c_name = ''Saved'', c_description = ''Your saved pins'',
                       c_user_id = 1\<rparr>],
      saves = []\<rparr>"

text \<open>
  The run of the routes used in the examples: alice and bob register, alice uploads
  \<open>cat.jpg\<close> (\<open>example_db0\<close>), then alice saves the post without naming a collection
  (\<open>example_db1\<close>).
\<close>

definition example_hash :: "string \<Rightarrow> string" where
  "example_hash password = ''pbkdf2:'' @ password"

definition example_cloudinary :: cloudinary_env where
  "example_cloudinary =
     \<lparr>CLOUDINARY_CLOUD_NAME = Some ''demo'', CLOUDINARY_API_KEY = Some ''key'',
      CLOUDINARY_API_SECRET = Some ''secret'',
      uploader_upload = (\<lambda>file_data options.
         Inr [(''secure_url'', ''https://res.example/pinspire/x.jpg''),
              (''resource_type'', ''image'')])\<rparr>"

definition example_db0 :: db where
  "example_db0 =
     fst (snd (upload example_cloudinary
       (snd (register example_hash
          (snd (register example_hash empty_db None POST
                  (Some ''alice'') (Some ''alice@x.com'') (Some ''password123'')))
          None POST (Some ''bob'') (Some ''bob@x.com'') (Some ''password456'')))
       (Some 1) POST (Some (''cat.jpg'', ''data'')) ''Cat'' ''A cat'' ''uuid-1''))"

definition example_db1 :: db where
  "example_db1 = snd (save_post example_db0 (Some 1) 1 None)"

text \<open>
  A database in which alice owns a second collection and has the post in both of her
  collections, while bob has it in his.
\<close>

definition example_two_collections :: db where
  "example_two_collections =
     example_db0
       \<lparr>collections := collections example_db0 @
          [\<lparr>c_id = 3, c_name = ''Travel'', c_description = ''Places'', c_user_id = 1\<rparr>],
        saves := [\<lparr>s_id = 1, s_post_id = 1, s_collection_id = 1\<rparr>,
                  \<lparr>s_id = 2, s_post_id = 1, s_collection_id = 3\<rparr>,
                  \<lparr>s_id = 3, s_post_id = 1, s_collection_id = 2\<rparr>]\<rparr>"

section \<open>Splitting at the last dot\<close>

lemma rsplit_dot_no_dot: "CHR ''.'' \<notin> set s \<Longrightarrow> rsplit_dot s = [s]"
  by (simp add: rsplit_dot_def)

lemma takeWhile_not_dot:
  "CHR ''.'' \<notin> set xs \<Longrightarrow> takeWhile (\<lambda>c. c \<noteq> CHR ''.'') (xs @ CHR ''.'' # ys) = xs"
  by (induction xs) auto

lemma dropWhile_not_dot:
  "CHR ''.'' \<notin> set xs \<Longrightarrow>
   dropWhile (\<lambda>c. c \<noteq> CHR ''.'') (xs @ CHR ''.'' # ys) = CHR ''.'' # ys"
  by (induction xs) auto

lemma rsplit_dot_append:
  assumes "CHR ''.'' \<notin> set ext"
  shows "rsplit_dot (base @ ''.'' @ ext) = [base, ext]"
proof -
  have nd: "CHR ''.'' \<notin> set (rev ext)"
    using assms by simp
  show ?thesis
    by (simp add: rsplit_dot_def takeWhile_not_dot [OF nd] dropWhile_not_dot [OF nd])
qed

lemma split_last_dot:
  assumes "CHR ''.'' \<in> set s"
  shows "\<exists>base ext. s = base @ ''.'' @ ext \<and> CHR ''.'' \<notin> set ext"
proof -
  let ?p = "\<lambda>c. c \<noteq> CHR ''.''"
  let ?r = "rev s"
  have ne: "dropWhile ?p ?r \<noteq> []"
    using assms by (simp add: dropWhile_eq_Nil_conv)
  have hd: "hd (dropWhile ?p ?r) = CHR ''.''"
    using ne hd_dropWhile [of ?p ?r] by simp
  have "?r = takeWhile ?p ?r @ CHR ''.'' # tl (dropWhile ?p ?r)"
    using ne hd by (metis takeWhile_dropWhile_id list.collapse)
  then have "rev ?r = rev (takeWhile ?p ?r @ CHR ''.'' # tl (dropWhile ?p ?r))"
    by simp
  then have "s = rev (tl (dropWhile ?p ?r)) @ ''.'' @ rev (takeWhile ?p ?r)"
    by simp
  moreover have "CHR ''.'' \<notin> set (rev (takeWhile ?p ?r))"
    using set_takeWhileD [of "CHR ''.''" ?p ?r] by auto
  ultimately show ?thesis by blast
qed

lemma py_index_pair: "py_index [a, b] (Suc 0) = Inr b"
  by (simp add: py_index_def)

lemma py_index_single: "py_index [a] (Suc 0) = Inl IndexError"
  by (simp add: py_index_def)

section \<open>The allow-list and the classification\<close>

lemma allowed_file_extension:
  "allowed_file f =
     Inr (\<exists>base ext. f = base @ ''.'' @ ext \<and> CHR ''.'' \<notin> set ext \<and>
            lower ext \<in> {''jpg'', ''jpeg'', ''png'', ''gif'', ''mp4'', ''mov'', ''webm''})"
proof (cases "CHR ''.'' \<in> set f")
  case False
  then have "allowed_file f = Inr False"
    by (simp add: allowed_file_def)
  moreover have "\<not> (\<exists>base ext. f = base @ ''.'' @ ext \<and> CHR ''.'' \<notin> set ext \<and>
            lower ext \<in> {''jpg'', ''jpeg'', ''png'', ''gif'', ''mp4'', ''mov'', ''webm''})"
    using False by auto
  ultimately show ?thesis by simp
next
  case True
  then obtain b e where be: "f = b @ ''.'' @ e" "CHR ''.'' \<notin> set e"
    using split_last_dot by blast
  have r: "rsplit_dot f = [b, e]"
    using be rsplit_dot_append by simp
  have "allowed_file f = Inr (lower e \<in> ALLOWED_EXTENSIONS)"
    using True by (simp add: allowed_file_def r py_index_pair)
  moreover have "(\<exists>base ext. f = base @ ''.'' @ ext \<and> CHR ''.'' \<notin> set ext \<and>
            lower ext \<in> {''jpg'', ''jpeg'', ''png'', ''gif'', ''mp4'', ''mov'', ''webm''})
       = (lower e \<in> ALLOWED_EXTENSIONS)"
  proof -
    have "\<And>base ext. f = base @ ''.'' @ ext \<Longrightarrow> CHR ''.'' \<notin> set ext \<Longrightarrow> ext = e"
      using r rsplit_dot_append by fastforce
    then show ?thesis
      unfolding ALLOWED_EXTENSIONS_def using be by blast
  qed
  ultimately show ?thesis by simp
qed

lemma is_allowed_file_eq: "is_allowed_file f = allowed_file f"
  unfolding is_allowed_file_def allowed_file_def ALLOWED_EXTENSIONS_def
    cloudinary_ALLOWED_EXTENSIONS_def by (rule refl)

lemma cloudinary_get_file_type_eq: "cloudinary_get_file_type f = get_file_type f"
  unfolding cloudinary_get_file_type_def get_file_type_def by (rule refl)

lemma allowed_file_exe: "allowed_file ''a.exe'' = Inr False"
  by code_simp

lemma allowed_file_JPG: "allowed_file ''a.JPG'' = Inr True"
  by code_simp

lemma get_file_type_mov: "get_file_type ''a.mov'' = Inr (Some ''video'')"
  by code_simp

lemma get_file_type_no_dot: "CHR ''.'' \<notin> set f \<Longrightarrow> get_file_type f = Inl IndexError"
  by (simp add: get_file_type_def rsplit_dot_no_dot py_index_single)

lemma get_file_type_dotted:
  assumes "CHR ''.'' \<notin> set ext"
  shows "get_file_type (base @ ''.'' @ ext) =
           Inr (if lower ext \<in> {''jpg'', ''jpeg'', ''png'', ''gif''} then Some ''image''
                else if lower ext \<in> {''mp4'', ''mov'', ''webm''} then Some ''video''
                else None)"
proof -
  have "rsplit_dot (base @ ''.'' @ ext) = [base, ext]"
    using assms by (rule rsplit_dot_append)
  then show ?thesis
    by (simp add: get_file_type_def py_index_pair Let_def)
qed

lemma allowed_file_total: "\<exists>b. allowed_file f = Inr b"
  by (simp add: allowed_file_extension)

lemma allowed_then_typed:
  assumes "allowed_file f = Inr True"
  shows "get_file_type f = Inr (Some ''image'') \<or> get_file_type f = Inr (Some ''video'')"
proof -
  from assms obtain base ext where f: "f = base @ ''.'' @ ext" and nd: "CHR ''.'' \<notin> set ext"
    and ext: "lower ext \<in> {''jpg'', ''jpeg'', ''png'', ''gif'', ''mp4'', ''mov'', ''webm''}"
    unfolding allowed_file_extension by blast
  have "get_file_type f =
           Inr (if lower ext \<in> {''jpg'', ''jpeg'', ''png'', ''gif''} then Some ''image''
                else if lower ext \<in> {''mp4'', ''mov'', ''webm''} then Some ''video''
                else None)"
    unfolding f using nd by (rule get_file_type_dotted)
  then show ?thesis
    using ext by auto
qed

text \<open>Whatever the input, \<open>save_file\<close> logs one of three records.\<close>

lemma save_file_log_cases:
  "fst (save_file env fs file_data f custom) = [LogError (''File type not allowed: '' @ f)]
   \<or> (\<exists>msg. fst (save_file env fs file_data f custom) = [LogError (''Error saving file: '' @ msg)])
   \<or> (\<exists>p. fst (save_file env fs file_data f custom) = [LogInfo (''File saved successfully: '' @ p)])"
proof -
  obtain b where b: "allowed_file f = Inr b"
    using allowed_file_total by blast
  show ?thesis
  proof (cases b)
    case False
    then show ?thesis using b by (simp add: save_file_def)
  next
    case True
    then have "get_file_type f = Inr (Some ''image'') \<or> get_file_type f = Inr (Some ''video'')"
      using b allowed_then_typed by simp
    then show ?thesis
      using b True by (auto simp: save_file_def Let_def split: sum.splits)
  qed
qed

lemma save_file_never_unknown:
  "LogError (''Unknown file type: '' @ f) \<notin> set (fst (save_file env fs file_data f custom))"
  using save_file_log_cases [of env fs file_data f custom] by auto

text \<open>
  Claim C7. \<open>allowed_file\<close> (and \<open>CloudinaryStorage.is_allowed_file\<close>, which has the same
  body) returns true exactly when the file name has the shape \<open>base.ext\<close> with no dot in
  \<open>ext\<close> and the lower-cased \<open>ext\<close> is one of \<open>jpg, jpeg, png, gif, mp4, mov, webm\<close>; it never
  raises. In particular \<open>a.exe\<close> is refused, \<open>a.JPG\<close> is accepted, and \<open>a.mov\<close> is
  classified as a video.
\<close>

theorem isAllowedFile_iff_allowed_extension:
  "allowed_file f =
     Inr (\<exists>base ext. f = base @ ''.'' @ ext \<and> CHR ''.'' \<notin> set ext \<and>
            lower ext \<in> {''jpg'', ''jpeg'', ''png'', ''gif'', ''mp4'', ''mov'', ''webm''})
   \<and> is_allowed_file f =
     Inr (\<exists>base ext. f = base @ ''.'' @ ext \<and> CHR ''.'' \<notin> set ext \<and>
            lower ext \<in> {''jpg'', ''jpeg'', ''png'', ''gif'', ''mp4'', ''mov'', ''webm''})
   \<and> allowed_file ''a.exe'' = Inr False \<and> is_allowed_file ''a.exe'' = Inr False
   \<and> allowed_file ''a.JPG'' = Inr True \<and> is_allowed_file ''a.JPG'' = Inr True
   \<and> get_file_type ''a.mov'' = Inr (Some ''video'')
   \<and> cloudinary_get_file_type ''a.mov'' = Inr (Some ''video'')"
  unfolding is_allowed_file_eq cloudinary_get_file_type_eq
  using allowed_file_extension [of f] allowed_file_exe allowed_file_JPG get_file_type_mov
  by simp

text \<open>
  Claim C4. On a file name without a dot, \<open>rsplit\<close> gives a one-element list and the index
  \<open>[1]\<close> raises \<open>IndexError\<close>: \<open>get_file_type\<close> fails on \<open>README\<close> instead of returning
  \<open>None\<close>, in both storage modules.
\<close>

theorem classify_no_extension_raises:
  "get_file_type ''README'' = Inl IndexError
   \<and> cloudinary_get_file_type ''README'' = Inl IndexError"
  unfolding cloudinary_get_file_type_eq by (simp add: get_file_type_no_dot)

text \<open>
  Claim C10. Whenever \<open>allowed_file\<close> accepts a file name, \<open>get_file_type\<close> classifies it as an
  image or a video; and \<open>save_file\<close>, which classifies only after \<open>allowed_file\<close> has
  accepted, never logs its unknown-file-type rejection.
\<close>

theorem allowed_file_implies_known_type:
  "(allowed_file f = Inr True \<longrightarrow>
      get_file_type f = Inr (Some ''image'') \<or> get_file_type f = Inr (Some ''video''))
   \<and> LogError (''Unknown file type: '' @ f) \<notin> set (fst (save_file env fs file_data f custom))"
proof (intro conjI impI)
  assume "allowed_file f = Inr True"
  then show "get_file_type f = Inr (Some ''image'') \<or> get_file_type f = Inr (Some ''video'')"
    by (rule allowed_then_typed)
next
  show "LogError (''Unknown file type: '' @ f) \<notin> set (fst (save_file env fs file_data f custom))"
    by (rule save_file_never_unknown)
qed

theorem allowed_file_implies_known_type_witness:
  "allowed_file ''cat.jpg'' = Inr True \<and>
   (get_file_type ''cat.jpg'' = Inr (Some ''image'') \<or>
    get_file_type ''cat.jpg'' = Inr (Some ''video''))"
proof -
  have h: "allowed_file ''cat.jpg'' = Inr True" by code_simp
  show ?thesis
    using h allowed_file_implies_known_type [of "''cat.jpg''", THEN conjunct1] by simp
qed

section \<open>The storage clients\<close>

lemma not_configured_iff:
  "(\<not> is_configured env) =
     (\<not> truthy_str (CLOUDINARY_CLOUD_NAME env) \<or> \<not> truthy_str (CLOUDINARY_API_KEY env)
      \<or> \<not> truthy_str (CLOUDINARY_API_SECRET env))"
  by (simp add: is_configured_def)

lemma upload_file_unconfigured:
  "\<not> is_configured env \<Longrightarrow>
   cloudinary_upload_file env file_data folder public_id resource_type =
     ([LogError ''Cloudinary not configured, cannot upload file''], [], (None, None))"
  by (simp add: cloudinary_upload_file_def)

lemma upload_unconfigured:
  "\<not> is_configured env \<Longrightarrow>
   upload env d session meth upl title description unique_id =
     (case load_user d session of
        None \<Rightarrow> (login_redirect, d, [])
      | Some u \<Rightarrow>
          (RenderTemplate ''upload.html''
             [''File uploads are temporarily disabled. Please check back later.''] (Some True),
           d, []))"
proof (cases "load_user d session")
  case None
  then show ?thesis by (simp add: upload_def)
next
  case (Some u)
  assume "\<not> is_configured env"
  then show ?thesis using Some by (simp add: upload_def)
qed

lemma supabase_uninitialized:
  "\<not> supabase_initialized env \<Longrightarrow>
   supabase_upload_file env file_data file_path content_type =
     ([LogError ''Supabase client not initialized''], [], None)"
  by (simp add: supabase_upload_file_def)

text \<open>
  Claim C8. When one of the three Cloudinary credentials is absent or empty,
  \<open>upload_file\<close> does nothing but log that the storage is not configured and return
  \<open>(None, None)\<close>: it makes no call to the provider. The upload route tests the flag before
  anything else: it makes no call either, leaves the database as it is (no post), and
  answers a logged-in user with the upload page in its disabled state.
\<close>

theorem unconfigured_storage_is_noop:
  assumes "\<not> truthy_str (CLOUDINARY_CLOUD_NAME env) \<or> \<not> truthy_str (CLOUDINARY_API_KEY env)
      \<or> \<not> truthy_str (CLOUDINARY_API_SECRET env)"
  shows "cloudinary_upload_file env file_data folder public_id resource_type =
           ([LogError ''Cloudinary not configured, cannot upload file''], [], (None, None))
         \<and> snd (upload env d session meth upl title description unique_id) = (d, [])
         \<and> (load_user d session \<noteq> None \<longrightarrow>
              fst (upload env d session meth upl title description unique_id) =
                RenderTemplate ''upload.html''
                  [''File uploads are temporarily disabled. Please check back later.'']
                  (Some True))"
proof -
  have nc: "\<not> is_configured env"
    using assms by (simp add: not_configured_iff)
  show ?thesis
    using upload_file_unconfigured [OF nc] upload_unconfigured [OF nc]
    by (auto split: option.splits)
qed

lemma cloudinary_calls:
  "fst (snd (cloudinary_upload_file env file_data folder public_id resource_type)) = []
   \<or> fst (snd (cloudinary_upload_file env file_data folder public_id resource_type)) =
       [CloudinaryUpload file_data
          \<lparr>opt_folder = folder, opt_resource_type = resource_type,
           opt_public_id = (if truthy_str public_id then public_id else None)\<rparr>]"
  by (simp add: cloudinary_upload_file_def Let_def split: sum.splits option.splits)

lemma direct_upload_calls:
  "fst (snd (supabase_direct_upload env inner_e file_data file_path content_type)) =
     [RequestsPost
        ((case SUPABASE_URL env of None \<Rightarrow> ''None'' | Some u \<Rightarrow> u)
           @ ''/storage/v1/object/avatars/'' @ file_path)
        [(''apikey'', (case SUPABASE_KEY env of None \<Rightarrow> ''None'' | Some k \<Rightarrow> k)),
         (''Authorization'', ''Bearer '' @ (case SUPABASE_KEY env of None \<Rightarrow> ''None'' | Some k \<Rightarrow> k)),
         (''Content-Type'', content_type)]
        file_data]"
  by (simp add: supabase_direct_upload_def Let_def split: sum.splits prod.splits)

lemma supabase_fallback_once:
  assumes "supabase_initialized env"
    and "storage_upload env ''avatars'' file_path file_data content_type = Inl e"
  shows "fst (snd (supabase_upload_file env file_data file_path content_type)) =
     [SupabaseUpload ''avatars'' file_path file_data content_type,
      RequestsPost
        (the (SUPABASE_URL env) @ ''/storage/v1/object/avatars/'' @ file_path)
        [(''apikey'', the (SUPABASE_KEY env)),
         (''Authorization'', ''Bearer '' @ the (SUPABASE_KEY env)),
         (''Content-Type'', content_type)]
        file_data]"
proof -
  obtain u k where uk: "SUPABASE_URL env = Some u" "SUPABASE_KEY env = Some k"
    using assms(1) by (auto simp: supabase_initialized_def truthy_str_def split: option.splits)
  obtain logs calls r where dr:
    "supabase_direct_upload env e file_data file_path content_type = (logs, calls, r)"
    by (cases "supabase_direct_upload env e file_data file_path content_type") auto
  have "calls = [RequestsPost (u @ ''/storage/v1/object/avatars/'' @ file_path)
        [(''apikey'', k), (''Authorization'', ''Bearer '' @ k), (''Content-Type'', content_type)]
        file_data]"
    using direct_upload_calls [of env e file_data file_path content_type] dr uk by simp
  then show ?thesis
    using assms dr uk by (simp add: supabase_upload_file_def Let_def)
qed

lemma direct_upload_http:
  "filter is_raw_http (fst (snd (supabase_direct_upload env e file_data file_path content_type)))
     = fst (snd (supabase_direct_upload env e file_data file_path content_type))
   \<and> length (fst (snd (supabase_direct_upload env e file_data file_path content_type))) = 1"
  unfolding direct_upload_calls by (simp add: is_raw_http_def)

lemma supabase_at_most_one_http:
  "length (filter is_raw_http
            (fst (snd (supabase_upload_file env file_data file_path content_type)))) \<le> 1"
proof (cases "supabase_initialized env")
  case False
  then show ?thesis by (simp add: supabase_upload_file_def)
next
  case init: True
  show ?thesis
  proof (cases "storage_upload env ''avatars'' file_path file_data content_type")
    case (Inl e)
    obtain logs calls r where dr:
      "supabase_direct_upload env e file_data file_path content_type = (logs, calls, r)"
      by (cases "supabase_direct_upload env e file_data file_path content_type") auto
    have "filter is_raw_http calls = calls \<and> length calls = 1"
      using direct_upload_http [of env e file_data file_path content_type] dr by simp
    then show ?thesis
      using init Inl dr by (simp add: supabase_upload_file_def Let_def is_raw_http_def)
  next
    case up: (Inr x)
    show ?thesis
    proof (cases "storage_get_public_url env ''avatars'' file_path")
      case (Inl e)
      obtain logs calls r where dr:
        "supabase_direct_upload env e file_data file_path content_type = (logs, calls, r)"
        by (cases "supabase_direct_upload env e file_data file_path content_type") auto
      have "filter is_raw_http calls = calls \<and> length calls = 1"
        using direct_upload_http [of env e file_data file_path content_type] dr by simp
      then show ?thesis
        using init up Inl dr by (simp add: supabase_upload_file_def Let_def is_raw_http_def)
    next
      case (Inr url)
      then show ?thesis
        using init up by (simp add: supabase_upload_file_def Let_def is_raw_http_def)
    qed
  qed
qed

lemma upload_calls:
  "snd (snd (upload env d session meth upl title description unique_id)) = []
   \<or> (\<exists>file_data. snd (snd (upload env d session meth upl title description unique_id)) =
         fst (snd (cloudinary_upload_file env file_data ''pinspire'' (Some unique_id) ''auto'')))"
proof (cases "load_user d session")
  case None
  then show ?thesis by (simp add: upload_def)
next
  case u: (Some current_user)
  show ?thesis
  proof (cases "is_configured env \<and> meth = POST")
    case False
    then show ?thesis using u by (auto simp: upload_def)
  next
    case conf: True
    show ?thesis
    proof (cases upl)
      case None
      then show ?thesis using u conf by (simp add: upload_def)
    next
      case (Some fd)
      obtain filename file_data where fd: "fd = (filename, file_data)" by (cases fd) auto
      obtain b where b: "is_allowed_file filename = Inr b"
        using allowed_file_total [of filename] by (auto simp: is_allowed_file_eq)
      obtain logs calls file_url file_type where cu:
        "cloudinary_upload_file env file_data ''pinspire'' (Some unique_id) ''auto''
           = (logs, calls, (file_url, file_type))"
        by (cases "cloudinary_upload_file env file_data ''pinspire'' (Some unique_id) ''auto''") auto
      have "snd (snd (upload env d session meth upl title description unique_id)) = []
         \<or> snd (snd (upload env d session meth upl title description unique_id)) = calls"
        using u conf Some fd b cu by (simp add: upload_def Let_def)
      then show ?thesis using cu by (metis fst_conv snd_conv)
    qed
  qed
qed

theorem unconfigured_storage_is_noop_witness:
  "CLOUDINARY_API_SECRET example_unconfigured = None
   \<and> cloudinary_upload_file example_unconfigured ''data'' ''pinspire'' (Some ''id'') ''auto'' =
       ([LogError ''Cloudinary not configured, cannot upload file''], [], (None, None))
   \<and> upload example_unconfigured example_alice_db (Some 1) POST (Some (''cat.jpg'', ''data''))
        ''t'' ''d'' ''id'' =
       (RenderTemplate ''upload.html''
          [''File uploads are temporarily disabled. Please check back later.''] (Some True),
        example_alice_db, [])"
proof -
  have h: "\<not> truthy_str (CLOUDINARY_CLOUD_NAME example_unconfigured)
      \<or> \<not> truthy_str (CLOUDINARY_API_KEY example_unconfigured)
      \<or> \<not> truthy_str (CLOUDINARY_API_SECRET example_unconfigured)"
    by (simp add: example_unconfigured_def truthy_str_def)
  have s: "CLOUDINARY_API_SECRET example_unconfigured = None"
    by (simp add: example_unconfigured_def)
  have l: "load_user example_alice_db (Some 1) \<noteq> None"
    by (simp add: load_user_def example_alice_db_def)
  show ?thesis
    using s l unconfigured_storage_is_noop [OF h, of "''data''" "''pinspire''" "Some ''id''" "''auto''" example_alice_db
        "Some 1" POST "Some (''cat.jpg'', ''data'')" "''t''" "''d''" "''id''"]
    by (simp add: prod_eq_iff)
qed

text \<open>
  Claim C9, as stated, fails for the backend the upload route uses: with Cloudinary
  configured and the SDK call raising, \<open>upload_file\<close> returns \<open>(None, None)\<close> after that one
  call, and no raw HTTP request is sent.
\<close>

theorem cloudinary_upload_no_fallback:
  "is_configured example_failing_cloudinary
   \<and> uploader_upload example_failing_cloudinary ''data''
        \<lparr>opt_folder = ''pinspire'', opt_resource_type = ''auto'', opt_public_id = Some ''id''\<rparr>
       = Inl ''connection timed out''
   \<and> snd (cloudinary_upload_file example_failing_cloudinary ''data'' ''pinspire'' (Some ''id'') ''auto'') =
       ([CloudinaryUpload ''data''
           \<lparr>opt_folder = ''pinspire'', opt_resource_type = ''auto'', opt_public_id = Some ''id''\<rparr>],
        (None, None))
   \<and> length (filter is_raw_http
        (fst (snd (cloudinary_upload_file example_failing_cloudinary ''data'' ''pinspire''
                     (Some ''id'') ''auto'')))) \<noteq> 1"
  by (simp add: cloudinary_upload_file_def example_failing_cloudinary_def is_configured_def
      truthy_str_def is_raw_http_def)

lemma supabase_fallback_result:
  assumes "supabase_initialized env"
    and "storage_upload env ''avatars'' file_path file_data content_type = Inl e"
  shows "snd (snd (supabase_upload_file env file_data file_path content_type)) =
     (case requests_post env
             (the (SUPABASE_URL env) @ ''/storage/v1/object/avatars/'' @ file_path)
             [(''apikey'', the (SUPABASE_KEY env)),
              (''Authorization'', ''Bearer '' @ the (SUPABASE_KEY env)),
              (''Content-Type'', content_type)]
             file_data of
        Inl e2 \<Rightarrow> None
      | Inr (status, text) \<Rightarrow>
          if status = 200
          then Some (the (SUPABASE_URL env) @ ''/storage/v1/object/public/avatars/'' @ file_path)
          else None)"
proof -
  obtain u k where uk: "SUPABASE_URL env = Some u" "SUPABASE_KEY env = Some k"
    using assms(1) by (auto simp: supabase_initialized_def truthy_str_def split: option.splits)
  show ?thesis
  proof (cases "requests_post env (u @ ''/storage/v1/object/avatars/'' @ file_path)
             [(''apikey'', k), (''Authorization'', ''Bearer '' @ k),
              (''Content-Type'', content_type)] file_data")
    case (Inl e2)
    then show ?thesis
      using assms uk
      by (simp add: supabase_upload_file_def supabase_direct_upload_def Let_def)
  next
    case (Inr r)
    obtain status body where r: "r = (status, body)" by (cases r) auto
    show ?thesis
      using assms uk Inr r
      by (simp add: supabase_upload_file_def supabase_direct_upload_def Let_def)
  qed
qed

lemma cloudinary_no_http:
  "filter is_raw_http
     (fst (snd (cloudinary_upload_file env file_data folder public_id resource_type))) = []
   \<and> length (fst (snd (cloudinary_upload_file env file_data folder public_id resource_type))) \<le> 1"
  using cloudinary_calls [of env file_data folder public_id resource_type]
  by (auto simp: is_raw_http_def)

lemma upload_no_http:
  "filter is_raw_http (snd (snd (upload env d session meth upl title description unique_id))) = []
   \<and> length (snd (snd (upload env d session meth upl title description unique_id))) \<le> 1"
  using upload_calls [of env d session meth upl title description unique_id]
    cloudinary_no_http [of env _ "''pinspire''" "Some unique_id" "''auto''"]
  by auto

text \<open>
  Claim C9, amended. The fallback exists in \<open>SupabaseClient.upload_file\<close> only: when the
  client is initialised and the Python client's upload raises, exactly one raw HTTP POST
  follows, to the object URL and with the same key in its headers, and its outcome is final
  (the public URL on status 200, otherwise \<open>None\<close>); no call of \<open>upload_file\<close> sends more
  than one such request. \<open>CloudinaryStorage.upload_file\<close> and the upload route, which uses
  it, make at most one call and never a raw HTTP request.
\<close>

theorem fallback_once_only_in_supabase_client:
  assumes "supabase_initialized env"
    and "storage_upload env ''avatars'' file_path file_data content_type = Inl e"
  shows "fst (snd (supabase_upload_file env file_data file_path content_type)) =
     [SupabaseUpload ''avatars'' file_path file_data content_type,
      RequestsPost
        (the (SUPABASE_URL env) @ ''/storage/v1/object/avatars/'' @ file_path)
        [(''apikey'', the (SUPABASE_KEY env)),
         (''Authorization'', ''Bearer '' @ the (SUPABASE_KEY env)),
         (''Content-Type'', content_type)]
        file_data]
   \<and> length (filter is_raw_http
        (fst (snd (supabase_upload_file env file_data file_path content_type)))) = 1
   \<and> snd (snd (supabase_upload_file env file_data file_path content_type)) =
     (case requests_post env
             (the (SUPABASE_URL env) @ ''/storage/v1/object/avatars/'' @ file_path)
             [(''apikey'', the (SUPABASE_KEY env)),
              (''Authorization'', ''Bearer '' @ the (SUPABASE_KEY env)),
              (''Content-Type'', content_type)]
             file_data of
        Inl e2 \<Rightarrow> None
      | Inr (status, text) \<Rightarrow>
          if status = 200
          then Some (the (SUPABASE_URL env) @ ''/storage/v1/object/public/avatars/'' @ file_path)
          else None)
   \<and> length (filter is_raw_http
        (fst (snd (supabase_upload_file env2 file_data2 file_path2 content_type2)))) \<le> 1
   \<and> filter is_raw_http
       (fst (snd (cloudinary_upload_file cenv data folder public_id resource_type))) = []
   \<and> length (fst (snd (cloudinary_upload_file cenv data folder public_id resource_type))) \<le> 1
   \<and> filter is_raw_http
       (snd (snd (upload cenv d session meth upl title description unique_id))) = []
   \<and> length (snd (snd (upload cenv d session meth upl title description unique_id))) \<le> 1"
proof -
  have c: "fst (snd (supabase_upload_file env file_data file_path content_type)) =
     [SupabaseUpload ''avatars'' file_path file_data content_type,
      RequestsPost
        (the (SUPABASE_URL env) @ ''/storage/v1/object/avatars/'' @ file_path)
        [(''apikey'', the (SUPABASE_KEY env)),
         (''Authorization'', ''Bearer '' @ the (SUPABASE_KEY env)),
         (''Content-Type'', content_type)]
        file_data]"
    using assms by (rule supabase_fallback_once)
  have n: "length (filter is_raw_http
        (fst (snd (supabase_upload_file env file_data file_path content_type)))) = 1"
    unfolding c by (simp add: is_raw_http_def)
  show ?thesis
    using c n supabase_fallback_result [OF assms]
      supabase_at_most_one_http [of env2 file_data2 file_path2 content_type2]
      cloudinary_no_http [of cenv data folder public_id resource_type]
      upload_no_http [of cenv d session meth upl title description unique_id]
    by simp
qed

theorem fallback_once_only_in_supabase_client_witness:
  "supabase_initialized example_failing_supabase
   \<and> storage_upload example_failing_supabase ''avatars'' ''p.jpg'' ''data'' ''image/jpeg''
       = Inl ''connection timed out''
   \<and> fst (snd (supabase_upload_file example_failing_supabase ''data'' ''p.jpg'' ''image/jpeg'')) =
     [SupabaseUpload ''avatars'' ''p.jpg'' ''data'' ''image/jpeg'',
      RequestsPost ''https://sb.example/storage/v1/object/avatars/p.jpg''
        [(''apikey'', ''key''), (''Authorization'', ''Bearer key''),
         (''Content-Type'', ''image/jpeg'')]
        ''data'']
   \<and> snd (snd (supabase_upload_file example_failing_supabase ''data'' ''p.jpg'' ''image/jpeg''))
       = None"
proof -
  have i: "supabase_initialized example_failing_supabase"
    by (simp add: supabase_initialized_def example_failing_supabase_def truthy_str_def)
  have f: "storage_upload example_failing_supabase ''avatars'' ''p.jpg'' ''data'' ''image/jpeg''
       = Inl ''connection timed out''"
    by (simp add: example_failing_supabase_def)
  have v: "SUPABASE_URL example_failing_supabase = Some ''https://sb.example''"
    "SUPABASE_KEY example_failing_supabase = Some ''key''"
    "requests_post example_failing_supabase = (\<lambda>url headers file_data. Inr (503, ''unavailable''))"
    by (simp_all add: example_failing_supabase_def)
  show ?thesis
    using i f fallback_once_only_in_supabase_client [OF i f] by (simp add: v)
qed

section \<open>The database: primary keys, the routes' effects, the invariant\<close>

lemma foldr_max_ge: "x \<in> set ids \<Longrightarrow> x \<le> foldr max ids (0::int)"
  by (induction ids) auto

lemma foldr_max_nonneg: "0 \<le> foldr max ids (0::int)"
  by (induction ids) auto

lemma next_id_gt: "x \<in> set ids \<Longrightarrow> x < next_id ids"
  using foldr_max_ge [of x ids] by (simp add: next_id_def)

lemma next_id_pos: "0 < next_id ids"
  using foldr_max_nonneg [of ids] by (simp add: next_id_def)

lemma next_id_fresh: "next_id ids \<notin> set ids"
  using next_id_gt [of "next_id ids" ids] by auto

text \<open>The shape of what each route does to the database.\<close>

lemma register_db:
  "snd (register h d session meth username email password) = d
   \<or> snd (register h d session meth username email password) =
           d\<lparr>users := users d @
                [\<lparr>u_id = next_id (map u_id (users d)), u_username = the username,
                  u_email = the email, u_password_hash = h (the password)\<rparr>],
              collections := collections d @
                [\<lparr>c_id = next_id (map c_id (collections d)), c_name = ''Saved'',
                  c_description = ''Your saved pins'',
                  c_user_id = next_id (map u_id (users d))\<rparr>]\<rparr>"
  by (simp add: register_def Let_def)

lemma upload_db:
  "fst (snd (upload env d session meth upl title description unique_id)) = d
   \<or> (\<exists>np. fst (snd (upload env d session meth upl title description unique_id)) =
           d\<lparr>posts := posts d @ [np]\<rparr>)"
proof (cases "load_user d session")
  case None
  then show ?thesis by (simp add: upload_def)
next
  case u: (Some current_user)
  show ?thesis
  proof (cases "is_configured env \<and> meth = POST")
    case False
    then show ?thesis using u by (auto simp: upload_def)
  next
    case conf: True
    show ?thesis
    proof (cases upl)
      case None
      then show ?thesis using u conf by (simp add: upload_def)
    next
      case (Some fd)
      obtain filename file_data where fd: "fd = (filename, file_data)" by (cases fd) auto
      obtain b where b: "is_allowed_file filename = Inr b"
        using allowed_file_total [of filename] by (auto simp: is_allowed_file_eq)
      obtain logs calls file_url file_type where cu:
        "cloudinary_upload_file env file_data ''pinspire'' (Some unique_id) ''auto''
           = (logs, calls, (file_url, file_type))"
        by (cases "cloudinary_upload_file env file_data ''pinspire'' (Some unique_id) ''auto''") auto
      have "fst (snd (upload env d session meth upl title description unique_id)) = d
         \<or> fst (snd (upload env d session meth upl title description unique_id)) =
             d\<lparr>posts := posts d @
                [\<lparr>p_id = next_id (map p_id (posts d)), p_title = title,
                  p_description = description, p_file_url = the file_url,
                  p_file_type = the file_type, p_user_id = u_id current_user\<rparr>]\<rparr>"
        using u conf Some fd b cu by (simp add: upload_def Let_def)
      then show ?thesis by blast
    qed
  qed
qed

lemma ensure_db:
  "(find (\<lambda>c. c_user_id c = uid \<and> c_name c = ''Saved'') (collections d) = Some col \<longrightarrow>
      ensure_default_collection d uid = (col, d))
   \<and> (find (\<lambda>c. c_user_id c = uid \<and> c_name c = ''Saved'') (collections d) = None \<longrightarrow>
      ensure_default_collection d uid =
        (\<lparr>c_id = next_id (map c_id (collections d)), c_name = ''Saved'',
          c_description = ''Your saved pins'', c_user_id = uid\<rparr>,
         d\<lparr>collections := collections d @
            [\<lparr>c_id = next_id (map c_id (collections d)), c_name = ''Saved'',
              c_description = ''Your saved pins'', c_user_id = uid\<rparr>]\<rparr>))"
  by (simp add: ensure_default_collection_def Let_def)

lemma find_None_filter: "(find P xs = None) = (filter P xs = [])"
  by (induction xs) auto

lemma find_Some_filter: "find P xs = Some x \<Longrightarrow> filter P xs \<noteq> [] \<and> x \<in> set xs \<and> P x"
  by (induction xs) (auto split: if_splits)

lemma saved_collections_append:
  "saved_collections (d\<lparr>collections := collections d @ [c]\<rparr>) uid =
     saved_collections d uid @ (if c_user_id c = uid \<and> c_name c = ''Saved'' then [c] else [])"
  by (simp add: saved_collections_def)

lemma inv_register:
  assumes inv: "db_inv d"
    and nu: "u_id nu = next_id (map u_id (users d))"
    and nc: "nc = \<lparr>c_id = next_id (map c_id (collections d)), c_name = ''Saved'',
                   c_description = cd, c_user_id = u_id nu\<rparr>"
  shows "db_inv (d\<lparr>users := users d @ [nu], collections := collections d @ [nc]\<rparr>)"
proof -
  let ?d' = "d\<lparr>users := users d @ [nu], collections := collections d @ [nc]\<rparr>"
  have fresh_u: "u_id nu \<notin> u_id ` set (users d)"
    using next_id_fresh [of "map u_id (users d)"] nu by simp
  have old_c: "\<forall>c\<in>set (collections d). c_user_id c \<in> u_id ` set (users d) \<and> 0 < c_id c"
    using inv by (simp add: db_inv_def)
  have none_new: "saved_collections d (u_id nu) = []"
  proof -
    have "\<And>c. c \<in> set (collections d) \<Longrightarrow> c_user_id c \<noteq> u_id nu"
      using old_c fresh_u by metis
    then show ?thesis
      by (simp add: saved_collections_def filter_empty_conv)
  qed
  have sc: "\<And>uid. saved_collections ?d' uid =
      saved_collections d uid @ (if uid = u_id nu then [nc] else [])"
    by (auto simp: saved_collections_def nc)
  have i1: "\<forall>c\<in>set (collections ?d'). c_user_id c \<in> u_id ` set (users ?d') \<and> 0 < c_id c"
    using old_c by (auto simp: nc next_id_pos)
  have i2: "\<forall>u\<in>set (users ?d'). length (saved_collections ?d' (u_id u)) = 1"
  proof
    fix u assume u: "u \<in> set (users ?d')"
    show "length (saved_collections ?d' (u_id u)) = 1"
    proof (cases "u_id u = u_id nu")
      case True
      then show ?thesis using sc none_new by simp
    next
      case False
      then have "u \<in> set (users d)" using u by auto
      then have "length (saved_collections d (u_id u)) = 1"
        using inv by (simp add: db_inv_def)
      then show ?thesis using sc False by simp
    qed
  qed
  have i3: "distinct (map c_id (collections ?d'))"
    using inv next_id_fresh [of "map c_id (collections d)"] by (simp add: db_inv_def nc)
  have rest: "distinct (map s_id (saves ?d'))" "distinct (save_pairs ?d')"
    "\<forall>s\<in>set (saves ?d'). s_post_id s \<in> p_id ` set (posts ?d')"
    using inv by (simp_all add: db_inv_def save_pairs_def)
  show ?thesis
    unfolding db_inv_def using i1 i2 i3 rest by blast
qed

lemma inv_post:
  assumes "db_inv d"
  shows "db_inv (d\<lparr>posts := posts d @ [np]\<rparr>)"
  using assms by (auto simp: db_inv_def save_pairs_def saved_collections_def)

lemma inv_filter_saves:
  assumes "db_inv d"
  shows "db_inv (d\<lparr>saves := filter P (saves d)\<rparr>)"
  using assms
  by (auto simp: db_inv_def save_pairs_def saved_collections_def distinct_map_filter)

lemma inv_add_save:
  assumes inv: "db_inv d"
    and p: "pid \<in> p_id ` set (posts d)"
    and new: "(pid, cid) \<notin> set (save_pairs d)"
  shows "db_inv (d\<lparr>saves := saves d @
           [\<lparr>s_id = next_id (map s_id (saves d)), s_post_id = pid, s_collection_id = cid\<rparr>]\<rparr>)"
proof -
  have f: "next_id (map s_id (saves d)) \<notin> s_id ` set (saves d)"
    using next_id_fresh [of "map s_id (saves d)"] by simp
  show ?thesis
    using inv p new f
    by (auto simp: db_inv_def save_pairs_def saved_collections_def)
qed

lemma inv_ensure:
  assumes inv: "db_inv d" and u: "u \<in> set (users d)"
  shows "\<exists>col. ensure_default_collection d (u_id u) = (col, d)
           \<and> col \<in> set (collections d) \<and> c_user_id col = u_id u \<and> c_name col = ''Saved''"
proof -
  have "length (saved_collections d (u_id u)) = 1"
    using inv u by (simp add: db_inv_def)
  then have "filter (\<lambda>c. c_user_id c = u_id u \<and> c_name c = ''Saved'') (collections d) \<noteq> []"
    by (auto simp: saved_collections_def)
  then obtain col where col:
    "find (\<lambda>c. c_user_id c = u_id u \<and> c_name c = ''Saved'') (collections d) = Some col"
    using find_None_filter [of "\<lambda>c. c_user_id c = u_id u \<and> c_name c = ''Saved''" "collections d"]
    by (cases "find (\<lambda>c. c_user_id c = u_id u \<and> c_name c = ''Saved'') (collections d)") auto
  then show ?thesis
    using find_Some_filter [OF col] ensure_db [of "u_id u" d col] by auto
qed

lemma load_user_Some: "load_user d session = Some u \<Longrightarrow> u \<in> set (users d)"
  by (auto simp: load_user_def split: option.splits dest: find_Some_filter)

lemma find_save_None:
  "(find (\<lambda>s. s_post_id s = pid \<and> s_collection_id s = cid) (saves d) = None)
     = ((pid, cid) \<notin> set (save_pairs d))"
  by (auto simp: find_None_filter filter_empty_conv save_pairs_def)

lemma save_post_resolved:
  assumes u: "load_user d session = Some u"
    and p: "find (\<lambda>p. p_id p = pid) (posts d) = Some p"
    and r: "(if falsy_id cid
             then (case ensure_default_collection d (u_id u) of
                     (default_collection, d1) \<Rightarrow> (c_id default_collection, d1))
             else (the cid, d)) = (target, d1)"
  shows "save_post d session pid cid =
     (case find (\<lambda>c. c_id c = target) (collections d1) of
        None \<Rightarrow> (Abort404, d1)
      | Some col \<Rightarrow>
          if c_user_id col \<noteq> u_id u then (JsonError ''Unauthorized'' 403, d1)
          else if (pid, target) \<in> set (save_pairs d1)
          then (JsonError ''Post already saved to this collection'' 400, d1)
          else (JsonSuccess,
                d1\<lparr>saves := saves d1 @
                   [\<lparr>s_id = next_id (map s_id (saves d1)), s_post_id = pid,
                     s_collection_id = target\<rparr>]\<rparr>))"
proof -
  have sp: "save_post d session pid cid =
     (case find (\<lambda>c. c_id c = target) (collections d1) of
        None \<Rightarrow> (Abort404, d1)
      | Some collection \<Rightarrow>
          if c_user_id collection \<noteq> u_id u then (JsonError ''Unauthorized'' 403, d1)
          else
            (case find (\<lambda>s. s_post_id s = pid \<and> s_collection_id s = target) (saves d1) of
               Some existing_save \<Rightarrow> (JsonError ''Post already saved to this collection'' 400, d1)
             | None \<Rightarrow>
                 (let new_save = \<lparr>s_id = next_id (map s_id (saves d1)),
                                   s_post_id = pid, s_collection_id = target\<rparr>
                  in (JsonSuccess, d1\<lparr>saves := saves d1 @ [new_save]\<rparr>))))"
    unfolding save_post_def u p option.case r prod.case by (rule refl)
  show ?thesis
  proof (cases "find (\<lambda>s. s_post_id s = pid \<and> s_collection_id s = target) (saves d1)")
    case None
    then have "(pid, target) \<notin> set (save_pairs d1)"
      by (simp add: find_save_None)
    then show ?thesis
      unfolding sp using None by (simp add: Let_def split: option.splits)
  next
    case (Some existing)
    then have "(pid, target) \<in> set (save_pairs d1)"
      using find_save_None [of pid target d1] by simp
    then show ?thesis
      unfolding sp using Some by (simp split: option.splits)
  qed
qed

lemma save_post_result:
  assumes u: "load_user d session = Some u"
    and p: "find (\<lambda>p. p_id p = pid) (posts d) = Some p"
    and t: "target = (if falsy_id cid then c_id (fst (ensure_default_collection d (u_id u)))
                      else the cid)"
    and d1: "d1 = (if falsy_id cid then snd (ensure_default_collection d (u_id u)) else d)"
  shows "save_post d session pid cid =
     (case find (\<lambda>c. c_id c = target) (collections d1) of
        None \<Rightarrow> (Abort404, d1)
      | Some col \<Rightarrow>
          if c_user_id col \<noteq> u_id u then (JsonError ''Unauthorized'' 403, d1)
          else if (pid, target) \<in> set (save_pairs d1)
          then (JsonError ''Post already saved to this collection'' 400, d1)
          else (JsonSuccess,
                d1\<lparr>saves := saves d1 @
                   [\<lparr>s_id = next_id (map s_id (saves d1)), s_post_id = pid,
                     s_collection_id = target\<rparr>]\<rparr>))"
proof -
  have "(if falsy_id cid
             then (case ensure_default_collection d (u_id u) of
                     (default_collection, d1) \<Rightarrow> (c_id default_collection, d1))
             else (the cid, d)) = (target, d1)"
    unfolding t d1 by (cases "ensure_default_collection d (u_id u)") simp
  then show ?thesis
    by (rule save_post_resolved [OF u p])
qed

lemma save_post_anonymous:
  "load_user d session = None \<Longrightarrow> save_post d session pid cid = (login_redirect, d)"
  by (simp add: save_post_def)

lemma save_post_no_post:
  "load_user d session = Some u \<Longrightarrow> find (\<lambda>p. p_id p = pid) (posts d) = None \<Longrightarrow>
   save_post d session pid cid = (Abort404, d)"
  by (simp add: save_post_def)

lemma inv_save_post:
  assumes inv: "db_inv d"
  shows "db_inv (snd (save_post d session pid cid))"
proof (cases "load_user d session")
  case None
  then show ?thesis using inv by (simp add: save_post_anonymous)
next
  case (Some u)
  note u = this
  show ?thesis
  proof (cases "find (\<lambda>p. p_id p = pid) (posts d)")
    case None
    then show ?thesis using inv u by (simp add: save_post_no_post)
  next
    case (Some p)
    have pin: "pid \<in> p_id ` set (posts d)"
      using find_Some_filter [OF Some] by auto
    obtain col where col: "ensure_default_collection d (u_id u) = (col, d)"
      using inv_ensure [OF inv load_user_Some [OF u]] by blast
    define target where "target = (if falsy_id cid then c_id (fst (ensure_default_collection d (u_id u)))
                      else the cid)"
    have d1: "d = (if falsy_id cid then snd (ensure_default_collection d (u_id u)) else d)"
      using col by simp
    have r: "snd (save_post d session pid cid) = d
       \<or> ((pid, target) \<notin> set (save_pairs d) \<and>
          snd (save_post d session pid cid) =
            d\<lparr>saves := saves d @
                   [\<lparr>s_id = next_id (map s_id (saves d)), s_post_id = pid,
                     s_collection_id = target\<rparr>]\<rparr>)"
      unfolding save_post_result [OF u Some target_def d1]
      by (simp split: option.splits)
    then show ?thesis
      using inv inv_add_save [OF inv pin] by auto
  qed
qed

lemma unsave_post_db:
  "\<exists>P. snd (unsave_post d session pid cid) = d\<lparr>saves := filter P (saves d)\<rparr>"
proof -
  have same: "d = d\<lparr>saves := filter (\<lambda>s. True) (saves d)\<rparr>"
    by simp
  have del: "\<And>found. \<exists>P. snd (delete_saves d found) = d\<lparr>saves := filter P (saves d)\<rparr>"
  proof -
    fix found
    show "\<exists>P. snd (delete_saves d found) = d\<lparr>saves := filter P (saves d)\<rparr>"
    proof (cases "found = []")
      case True
      then have "snd (delete_saves d found) = d" by (simp add: delete_saves_def)
      then show ?thesis using same by metis
    next
      case False
      then show ?thesis by (auto simp: delete_saves_def)
    qed
  qed
  show ?thesis
  proof (cases "load_user d session")
    case None
    then have "snd (unsave_post d session pid cid) = d" by (simp add: unsave_post_def)
    then show ?thesis using same by metis
  next
    case (Some u)
    show ?thesis
    proof (cases "falsy_id cid")
      case True
      then show ?thesis using Some del by (simp add: unsave_post_def)
    next
      case False
      show ?thesis
      proof (cases "find (\<lambda>c. c_id c = the cid) (collections d)")
        case None
        then have "snd (unsave_post d session pid cid) = d"
          using Some False by (simp add: unsave_post_def)
        then show ?thesis using same by metis
      next
        case c: (Some col)
        show ?thesis
        proof (cases "c_user_id col \<noteq> u_id u")
          case True
          then have "snd (unsave_post d session pid cid) = d"
            using Some False c by (simp add: unsave_post_def)
          then show ?thesis using same by metis
        next
          case own: False
          then show ?thesis using Some False c del by (simp add: unsave_post_def)
        qed
      qed
    qed
  qed
qed

lemma inv_empty: "db_inv empty_db"
  by (simp add: db_inv_def empty_db_def save_pairs_def)

lemma reachable_inv: "reachable d \<Longrightarrow> db_inv d"
proof (induction rule: reachable.induct)
  case reach_empty
  show ?case by (rule inv_empty)
next
  case (reach_register d h session meth username email password)
  then show ?case
    using register_db [of h d session meth username email password]
      inv_register [of d _ _ "''Your saved pins''"]
    by auto
next
  case (reach_upload d env session meth upl title description unique_id)
  then show ?case
    using upload_db [of env d session meth upl title description unique_id] inv_post [of d]
    by auto
next
  case (reach_save d session post_id collection_id)
  then show ?case by (simp add: inv_save_post)
next
  case (reach_unsave d session post_id collection_id)
  then show ?case
    using unsave_post_db [of d session post_id collection_id] inv_filter_saves [of d]
    by auto
qed

lemma example_db0_value:
  "example_db0 =
     \<lparr>users = [\<lparr>u_id = 1, u_username = ''alice'', u_email = ''alice@x.com'',
                 u_password_hash = ''pbkdf2:password123''\<rparr>,
               \<lparr>u_id = 2, u_username = ''bob'', u_email = ''bob@x.com'',
                 u_password_hash = ''pbkdf2:password456''\<rparr>],
      posts = [\<lparr>p_id = 1, p_title = ''Cat'', p_description = ''A cat'',
                 p_file_url = ''https://res.example/pinspire/x.jpg'', p_file_type = ''image'',
                 p_user_id = 1\<rparr>],
      collections = [\<lparr>c_id = 1, c_name = ''Saved'', c_description = ''Your saved pins'',
                       c_user_id = 1\<rparr>,
                     \<lparr>c_id = 2, c_name = ''Saved'', c_description = ''Your saved pins'',
                       c_user_id = 2\<rparr>],
      saves = []\<rparr>"
  by code_simp

lemma example_db1_value:
  "example_db1 = example_db0\<lparr>saves := [\<lparr>s_id = 1, s_post_id = 1, s_collection_id = 1\<rparr>]\<rparr>"
  by code_simp

lemma reachable_example_db0: "reachable example_db0"
  unfolding example_db0_def
  by (intro reach_upload reach_register reach_empty)

lemma reachable_example_db1: "reachable example_db1"
  unfolding example_db1_def
  by (intro reach_save reachable_example_db0)

section \<open>Saving a post\<close>

lemma find_distinct_key:
  "distinct (map f xs) \<Longrightarrow> x \<in> set xs \<Longrightarrow> find (\<lambda>y. f y = f x) xs = Some x"
proof (induction xs)
  case Nil
  then show ?case by simp
next
  case (Cons a xs)
  then show ?case by (cases "f a = f x") (auto simp: image_iff)
qed

lemma filter_single_unique:
  assumes "length (filter P xs) = 1" "x \<in> set xs" "P x" "y \<in> set xs" "P y"
  shows "x = y"
proof -
  obtain z where z: "filter P xs = [z]"
    using assms(1) by (cases "filter P xs") auto
  have "x \<in> set (filter P xs)" "y \<in> set (filter P xs)"
    using assms by auto
  then show ?thesis unfolding z by simp
qed

lemma save_post_saves:
  assumes inv: "db_inv d"
  shows "save_post d session pid cid = (fst (save_post d session pid cid), d)
       \<or> (\<exists>target. (pid, target) \<notin> set (save_pairs d) \<and>
            save_post d session pid cid =
              (JsonSuccess,
               d\<lparr>saves := saves d @
                   [\<lparr>s_id = next_id (map s_id (saves d)), s_post_id = pid,
                     s_collection_id = target\<rparr>]\<rparr>))"
proof (cases "load_user d session")
  case None
  then show ?thesis by (simp add: save_post_anonymous)
next
  case (Some u)
  note u = this
  show ?thesis
  proof (cases "find (\<lambda>p. p_id p = pid) (posts d)")
    case None
    then show ?thesis using u by (simp add: save_post_no_post)
  next
    case (Some p)
    obtain col where col: "ensure_default_collection d (u_id u) = (col, d)"
      using inv_ensure [OF inv load_user_Some [OF u]] by blast
    define target where "target = (if falsy_id cid then c_id (fst (ensure_default_collection d (u_id u)))
                      else the cid)"
    have d1: "d = (if falsy_id cid then snd (ensure_default_collection d (u_id u)) else d)"
      using col by simp
    have "save_post d session pid cid = (fst (save_post d session pid cid), d)
       \<or> ((pid, target) \<notin> set (save_pairs d) \<and>
          save_post d session pid cid =
            (JsonSuccess, d\<lparr>saves := saves d @
                   [\<lparr>s_id = next_id (map s_id (saves d)), s_post_id = pid,
                     s_collection_id = target\<rparr>]\<rparr>))"
      unfolding save_post_result [OF u Some target_def d1]
      by (simp split: option.splits)
    then show ?thesis by blast
  qed
qed

lemma save_post_conflict:
  assumes inv: "db_inv d"
    and u: "load_user d session = Some u"
    and c: "c \<in> set (collections d)" "c_user_id c = u_id u"
    and t: "cid = Some (c_id c) \<or> (falsy_id cid \<and> c_name c = ''Saved'')"
    and s: "(pid, c_id c) \<in> set (save_pairs d)"
  shows "save_post d session pid cid =
           (JsonError ''Post already saved to this collection'' 400, d)"
proof -
  have uin: "u \<in> set (users d)" using u by (rule load_user_Some)
  have "pid \<in> p_id ` set (posts d)"
    using inv s by (auto simp: db_inv_def save_pairs_def)
  then obtain p where p: "find (\<lambda>p. p_id p = pid) (posts d) = Some p"
    by (cases "find (\<lambda>p. p_id p = pid) (posts d)")
       (auto simp: find_None_filter filter_empty_conv)
  obtain col where col: "ensure_default_collection d (u_id u) = (col, d)"
    "col \<in> set (collections d)" "c_user_id col = u_id u" "c_name col = ''Saved''"
    using inv_ensure [OF inv uin] by blast
  have pos: "0 < c_id c" using inv c(1) by (simp add: db_inv_def)
  have one: "length (filter (\<lambda>c. c_user_id c = u_id u \<and> c_name c = ''Saved'') (collections d)) = 1"
    using inv uin by (simp add: db_inv_def saved_collections_def)
  have target: "(if falsy_id cid then c_id (fst (ensure_default_collection d (u_id u)))
                      else the cid) = c_id c"
  proof (cases "falsy_id cid")
    case True
    then have "cid \<noteq> Some (c_id c)" using pos by (auto simp: falsy_id_def)
    then have "c_name c = ''Saved''" using t by simp
    then have "col = c"
      using filter_single_unique [OF one col(2) _ c(1)] col(3,4) c(2) by simp
    then show ?thesis using True col(1) by simp
  next
    case False
    then show ?thesis using t by auto
  qed
  have d1: "d = (if falsy_id cid then snd (ensure_default_collection d (u_id u)) else d)"
    using col(1) by simp
  have f: "find (\<lambda>x. c_id x = c_id c) (collections d) = Some c"
    using inv c(1) find_distinct_key [of c_id "collections d" c] by (simp add: db_inv_def)
  show ?thesis
    unfolding save_post_result [OF u p target [symmetric] d1]
    using f c(2) s by simp
qed

text \<open>
  Claim C1. In every state the routes reach from the empty database no two Save rows have
  the same (post, collection) pair. A \<open>save_post\<close> call either leaves the database as it is
  or adds one Save row whose pair was not there before; and when the collection the call
  aims at (the one named by a collection id of the caller's, or the caller's \<open>Saved\<close>
  collection when the id is omitted) already holds the post, the call answers with the
  conflict error, status 400, and the database is unchanged.
\<close>

theorem no_duplicate_save:
  assumes "reachable d"
  shows "distinct (save_pairs d)
   \<and> (save_post d session pid cid = (fst (save_post d session pid cid), d)
       \<or> (\<exists>target. (pid, target) \<notin> set (save_pairs d) \<and>
            save_post d session pid cid =
              (JsonSuccess,
               d\<lparr>saves := saves d @
                   [\<lparr>s_id = next_id (map s_id (saves d)), s_post_id = pid,
                     s_collection_id = target\<rparr>]\<rparr>)))
   \<and> (\<forall>u c. load_user d session = Some u \<and> c \<in> set (collections d) \<and> c_user_id c = u_id u
          \<and> (cid = Some (c_id c) \<or> (falsy_id cid \<and> c_name c = ''Saved''))
          \<and> (pid, c_id c) \<in> set (save_pairs d)
        \<longrightarrow> save_post d session pid cid =
              (JsonError ''Post already saved to this collection'' 400, d))"
proof -
  have inv: "db_inv d" using assms by (rule reachable_inv)
  have a: "distinct (save_pairs d)" using inv by (simp add: db_inv_def)
  show ?thesis
    using a save_post_saves [OF inv, of session pid cid] save_post_conflict [OF inv, of session]
    by blast
qed

theorem no_duplicate_save_witness:
  "reachable example_db1
   \<and> (1, 1) \<in> set (save_pairs example_db1)
   \<and> distinct (save_pairs example_db1)
   \<and> save_post example_db1 (Some 1) 1 None =
       (JsonError ''Post already saved to this collection'' 400, example_db1)
   \<and> save_post example_db1 (Some 1) 1 (Some 1) =
       (JsonError ''Post already saved to this collection'' 400, example_db1)"
proof -
  let ?alice = "\<lparr>u_id = 1, u_username = ''alice'', u_email = ''alice@x.com'',
                 u_password_hash = ''pbkdf2:password123''\<rparr>"
  let ?saved = "\<lparr>c_id = 1, c_name = ''Saved'', c_description = ''Your saved pins'',
                       c_user_id = 1\<rparr>"
  have r: "reachable example_db1" by (rule reachable_example_db1)
  have u: "load_user example_db1 (Some 1) = Some ?alice"
    by (simp add: example_db1_value example_db0_value load_user_def)
  have c: "?saved \<in> set (collections example_db1)"
    by (simp add: example_db1_value example_db0_value)
  have s: "(1, 1) \<in> set (save_pairs example_db1)"
    by (simp add: example_db1_value save_pairs_def)
  have f: "falsy_id None" by (simp add: falsy_id_def)
  note T = no_duplicate_save [OF r]
  have "save_post example_db1 (Some 1) 1 None =
       (JsonError ''Post already saved to this collection'' 400, example_db1)"
    using T [of "Some 1" 1 None] u c s f by auto
  moreover have "save_post example_db1 (Some 1) 1 (Some 1) =
       (JsonError ''Post already saved to this collection'' 400, example_db1)"
    using T [of "Some 1" 1 "Some 1"] u c s by auto
  moreover have "distinct (save_pairs example_db1)"
    using T [of None 0 None] by simp
  ultimately show ?thesis using r s by simp
qed

section \<open>The default collection\<close>

lemma ensure_count:
  "length (saved_collections (snd (ensure_default_collection d uid)) uid) =
     (if saved_collections d uid = [] then 1 else length (saved_collections d uid))"
proof (cases "find (\<lambda>c. c_user_id c = uid \<and> c_name c = ''Saved'') (collections d)")
  case None
  then have e: "saved_collections d uid = []"
    by (simp add: find_None_filter saved_collections_def)
  show ?thesis
    using None ensure_db [of uid d] e
    by (simp add: saved_collections_append)
next
  case (Some col)
  then have "saved_collections d uid \<noteq> []"
    using find_Some_filter [OF Some] by (simp add: saved_collections_def)
  then show ?thesis
    using Some ensure_db [of uid d col] by simp
qed

lemma ensure_twice:
  assumes "length (saved_collections d uid) \<le> 1"
  shows "length (saved_collections
           (snd (ensure_default_collection (snd (ensure_default_collection d uid)) uid)) uid) = 1"
proof -
  have one: "length (saved_collections (snd (ensure_default_collection d uid)) uid) = 1"
    using assms ensure_count [of d uid] by (cases "saved_collections d uid") auto
  then have "saved_collections (snd (ensure_default_collection d uid)) uid \<noteq> []"
    by auto
  then show ?thesis
    using one ensure_count [of "snd (ensure_default_collection d uid)" uid] by simp
qed

lemma save_post_collections:
  assumes "db_inv d"
  shows "collections (snd (save_post d session pid cid)) = collections d
       \<and> users (snd (save_post d session pid cid)) = users d"
proof -
  have "snd (save_post d session pid cid) = d
      \<or> (\<exists>ss. snd (save_post d session pid cid) = d\<lparr>saves := ss\<rparr>)"
    using save_post_saves [OF assms, of session pid cid] by (metis snd_conv)
  then show ?thesis by auto
qed

text \<open>
  Claim C2. In every state the routes reach, each user has exactly one collection named
  \<open>Saved\<close>; a \<open>save_post\<close> call creates no collection there, so the same holds after it.
  And running the default-collection step of \<open>save_post\<close> twice for a user with at most one
  such collection leaves exactly one.
\<close>

theorem exactly_one_saved_collection:
  assumes "reachable d"
  shows "(\<forall>u\<in>set (users d). length (saved_collections d (u_id u)) = 1)
   \<and> collections (snd (save_post d session pid cid)) = collections d
   \<and> (\<forall>u\<in>set (users (snd (save_post d session pid cid))).
         length (saved_collections (snd (save_post d session pid cid)) (u_id u)) = 1)
   \<and> (length (saved_collections d0 uid) \<le> 1 \<longrightarrow>
        length (saved_collections
           (snd (ensure_default_collection (snd (ensure_default_collection d0 uid)) uid))
           uid) = 1)"
proof -
  have inv: "db_inv d" using assms by (rule reachable_inv)
  have inv': "db_inv (snd (save_post d session pid cid))"
    using reach_save [OF assms] by (rule reachable_inv)
  show ?thesis
    using inv inv' save_post_collections [OF inv, of session pid cid] ensure_twice [of d0 uid]
    by (simp add: db_inv_def)
qed

theorem exactly_one_saved_collection_witness:
  "reachable example_db1
   \<and> length (saved_collections example_db1 1) = 1
   \<and> length (saved_collections (snd (save_post example_db1 (Some 1) 1 None)) 1) = 1
   \<and> length (saved_collections empty_db 5) \<le> 1
   \<and> length (saved_collections
         (snd (ensure_default_collection (snd (ensure_default_collection empty_db 5)) 5)) 5) = 1"
proof -
  let ?alice = "\<lparr>u_id = 1, u_username = ''alice'', u_email = ''alice@x.com'',
                 u_password_hash = ''pbkdf2:password123''\<rparr>"
  have r: "reachable example_db1" by (rule reachable_example_db1)
  have a: "?alice \<in> set (users example_db1)"
    by (simp add: example_db1_value example_db0_value)
  have e: "length (saved_collections empty_db 5) \<le> 1"
    by (simp add: saved_collections_def empty_db_def)
  note T = exactly_one_saved_collection [OF r, of "Some 1" 1 None empty_db 5]
  have a': "?alice \<in> set (users (snd (save_post example_db1 (Some 1) 1 None)))"
    using a save_post_collections [OF reachable_inv [OF r], of "Some 1" 1 None] by simp
  have "length (saved_collections example_db1 (u_id ?alice)) = 1"
    using T a by blast
  moreover have
    "length (saved_collections (snd (save_post example_db1 (Some 1) 1 None)) (u_id ?alice)) = 1"
    using T a' by blast
  moreover have "length (saved_collections
         (snd (ensure_default_collection (snd (ensure_default_collection empty_db 5)) 5)) 5) = 1"
    using T e by blast
  ultimately show ?thesis using r e by simp
qed

section \<open>Removing a save\<close>

lemma filter_by_key:
  assumes "distinct (map f xs)"
  shows "filter (\<lambda>x. f x \<notin> set (map f (filter P xs))) xs = filter (\<lambda>x. \<not> P x) xs"
proof (rule filter_cong [OF refl])
  fix x assume x: "x \<in> set xs"
  have inj: "inj_on f (set xs)" using assms by (simp add: distinct_map)
  show "(f x \<notin> set (map f (filter P xs))) = (\<not> P x)"
  proof
    assume "f x \<notin> set (map f (filter P xs))"
    then show "\<not> P x" using x by auto
  next
    assume np: "\<not> P x"
    show "f x \<notin> set (map f (filter P xs))"
    proof
      assume "f x \<in> set (map f (filter P xs))"
      then obtain y where y: "y \<in> set xs" "P y" "f y = f x" by auto
      then have "y = x" using inj x by (auto dest: inj_onD)
      then show False using y np by simp
    qed
  qed
qed

lemma delete_saves_removes:
  "\<forall>s\<in>set (saves (snd (delete_saves d (filter P (saves d))))). \<not> P s"
  by (auto simp: delete_saves_def filter_empty_conv)

lemma delete_saves_exact:
  assumes "distinct (map s_id (saves d))"
  shows "snd (delete_saves d (filter P (saves d))) = d\<lparr>saves := filter (\<lambda>s. \<not> P s) (saves d)\<rparr>"
proof (cases "filter P (saves d) = []")
  case True
  then have "filter (\<lambda>s. \<not> P s) (saves d) = saves d"
    by (auto simp: filter_empty_conv filter_id_conv)
  then show ?thesis using True by (simp add: delete_saves_def)
next
  case False
  then show ?thesis
    using filter_by_key [OF assms, of P] by (simp add: delete_saves_def)
qed

lemma delete_saves_response:
  "fst (delete_saves d (filter P (saves d))) =
     (if \<exists>s\<in>set (saves d). P s then JsonSuccess
      else JsonError ''Post not saved to specified collection'' 404)"
  by (auto simp: delete_saves_def filter_empty_conv)

lemma unsave_post_everywhere:
  assumes "load_user d session = Some u" and "falsy_id cid"
  shows "unsave_post d session pid cid =
           delete_saves d
             (filter (\<lambda>s. s_post_id s = pid \<and> owned_by d (u_id u) s) (saves d))"
  using assms by (simp add: unsave_post_def owned_by_def)

text \<open>
  Claim C3. When a logged-in user calls \<open>unsave_post\<close> without a collection id, no Save row
  of the post in a collection of that user is left, whichever of the user's collections it
  was in. With unique primary keys exactly these rows go and every other row stays. The
  answer is a success when there was such a row and the 404 error otherwise.
\<close>

theorem unsave_removes_from_every_collection:
  assumes "load_user d session = Some u" and "falsy_id cid"
  shows "(\<forall>s\<in>set (saves (snd (unsave_post d session pid cid))).
            \<not> (s_post_id s = pid \<and> owned_by d (u_id u) s))
   \<and> (distinct (map s_id (saves d)) \<longrightarrow>
        snd (unsave_post d session pid cid) =
          d\<lparr>saves := filter (\<lambda>s. \<not> (s_post_id s = pid \<and> owned_by d (u_id u) s)) (saves d)\<rparr>)
   \<and> fst (unsave_post d session pid cid) =
        (if \<exists>s\<in>set (saves d). s_post_id s = pid \<and> owned_by d (u_id u) s then JsonSuccess
         else JsonError ''Post not saved to specified collection'' 404)"
proof -
  have e: "unsave_post d session pid cid =
           delete_saves d
             (filter (\<lambda>s. s_post_id s = pid \<and> owned_by d (u_id u) s) (saves d))"
    using assms by (rule unsave_post_everywhere)
  show ?thesis
    unfolding e
  proof (intro conjI impI)
    show "\<forall>s\<in>set (saves (snd (delete_saves d
              (filter (\<lambda>s. s_post_id s = pid \<and> owned_by d (u_id u) s) (saves d))))).
            \<not> (s_post_id s = pid \<and> owned_by d (u_id u) s)"
      by (rule delete_saves_removes)
  next
    assume "distinct (map s_id (saves d))"
    then show "snd (delete_saves d
              (filter (\<lambda>s. s_post_id s = pid \<and> owned_by d (u_id u) s) (saves d))) =
          d\<lparr>saves := filter (\<lambda>s. \<not> (s_post_id s = pid \<and> owned_by d (u_id u) s)) (saves d)\<rparr>"
      by (rule delete_saves_exact)
  next
    show "fst (delete_saves d
              (filter (\<lambda>s. s_post_id s = pid \<and> owned_by d (u_id u) s) (saves d))) =
        (if \<exists>s\<in>set (saves d). s_post_id s = pid \<and> owned_by d (u_id u) s then JsonSuccess
         else JsonError ''Post not saved to specified collection'' 404)"
      by (rule delete_saves_response)
  qed
qed

lemma example_two_collections_saves:
  "saves example_two_collections =
     [\<lparr>s_id = 1, s_post_id = 1, s_collection_id = 1\<rparr>,
      \<lparr>s_id = 2, s_post_id = 1, s_collection_id = 3\<rparr>,
      \<lparr>s_id = 3, s_post_id = 1, s_collection_id = 2\<rparr>]"
  by (simp add: example_two_collections_def)

theorem unsave_removes_from_every_collection_witness:
  "load_user example_two_collections (Some 1) =
     Some \<lparr>u_id = 1, u_username = ''alice'', u_email = ''alice@x.com'',
           u_password_hash = ''pbkdf2:password123''\<rparr>
   \<and> falsy_id None
   \<and> distinct (map s_id (saves example_two_collections))
   \<and> saves example_two_collections =
     [\<lparr>s_id = 1, s_post_id = 1, s_collection_id = 1\<rparr>,
      \<lparr>s_id = 2, s_post_id = 1, s_collection_id = 3\<rparr>,
      \<lparr>s_id = 3, s_post_id = 1, s_collection_id = 2\<rparr>]
   \<and> unsave_post example_two_collections (Some 1) 1 None =
     (JsonSuccess,
      example_two_collections\<lparr>saves := [\<lparr>s_id = 3, s_post_id = 1, s_collection_id = 2\<rparr>]\<rparr>)"
proof -
  let ?alice = "\<lparr>u_id = 1, u_username = ''alice'', u_email = ''alice@x.com'',
           u_password_hash = ''pbkdf2:password123''\<rparr>"
  have u: "load_user example_two_collections (Some 1) = Some ?alice"
    by (simp add: example_two_collections_def example_db0_value load_user_def)
  have f: "falsy_id None" by (simp add: falsy_id_def)
  have dis: "distinct (map s_id (saves example_two_collections))"
    by (simp add: example_two_collections_saves)
  have own: "owned_by example_two_collections 1 \<lparr>s_id = 1, s_post_id = 1, s_collection_id = 1\<rparr>"
    "owned_by example_two_collections 1 \<lparr>s_id = 2, s_post_id = 1, s_collection_id = 3\<rparr>"
    "\<not> owned_by example_two_collections 1 \<lparr>s_id = 3, s_post_id = 1, s_collection_id = 2\<rparr>"
    by (simp_all add: owned_by_def example_two_collections_def example_db0_value)
  note T = unsave_removes_from_every_collection [OF u f, of 1]
  have u1: "u_id ?alice = 1" by simp
  have fl: "filter (\<lambda>s. \<not> (s_post_id s = 1 \<and> owned_by example_two_collections 1 s))
              (saves example_two_collections) = [\<lparr>s_id = 3, s_post_id = 1, s_collection_id = 2\<rparr>]"
    unfolding example_two_collections_saves using own by simp
  have "snd (unsave_post example_two_collections (Some 1) 1 None) =
          example_two_collections\<lparr>saves :=
            filter (\<lambda>s. \<not> (s_post_id s = 1 \<and> owned_by example_two_collections (u_id ?alice) s))
              (saves example_two_collections)\<rparr>"
    using T [THEN conjunct2, THEN conjunct1] dis by (rule mp)
  then have "snd (unsave_post example_two_collections (Some 1) 1 None) =
          example_two_collections\<lparr>saves := [\<lparr>s_id = 3, s_post_id = 1, s_collection_id = 2\<rparr>]\<rparr>"
    unfolding u1 fl .
  moreover have "fst (unsave_post example_two_collections (Some 1) 1 None) = JsonSuccess"
  proof -
    have "\<exists>s\<in>set (saves example_two_collections).
            s_post_id s = 1 \<and> owned_by example_two_collections (u_id ?alice) s"
      unfolding u1 example_two_collections_saves using own(1) by simp
    then show ?thesis
      using T [THEN conjunct2, THEN conjunct2] by simp
  qed
  ultimately have res: "unsave_post example_two_collections (Some 1) 1 None =
     (JsonSuccess,
      example_two_collections\<lparr>saves := [\<lparr>s_id = 3, s_post_id = 1, s_collection_id = 2\<rparr>]\<rparr>)"
    by (metis prod.collapse)
  show ?thesis
    by (intro conjI u f dis example_two_collections_saves res)
qed

section \<open>An explicit collection id\<close>

lemma find_None_image: "(find (\<lambda>x. f x = k) xs = None) = (k \<notin> f ` set xs)"
  by (auto simp: find_None_filter filter_empty_conv)

lemma save_post_explicit:
  assumes u: "load_user d session = Some u"
    and p: "find (\<lambda>p. p_id p = pid) (posts d) = Some p"
    and c: "c \<noteq> 0"
  shows "save_post d session pid (Some c) =
     (case find (\<lambda>x. c_id x = c) (collections d) of
        None \<Rightarrow> (Abort404, d)
      | Some col \<Rightarrow>
          if c_user_id col \<noteq> u_id u then (JsonError ''Unauthorized'' 403, d)
          else if (pid, c) \<in> set (save_pairs d)
          then (JsonError ''Post already saved to this collection'' 400, d)
          else (JsonSuccess,
                d\<lparr>saves := saves d @
                   [\<lparr>s_id = next_id (map s_id (saves d)), s_post_id = pid,
                     s_collection_id = c\<rparr>]\<rparr>))"
proof -
  have nf: "\<not> falsy_id (Some c)" using c by (simp add: falsy_id_def)
  have t: "c = (if falsy_id (Some c) then c_id (fst (ensure_default_collection d (u_id u)))
                else the (Some c))"
    using nf by simp
  have d1: "d = (if falsy_id (Some c) then snd (ensure_default_collection d (u_id u)) else d)"
    using nf by simp
  show ?thesis
    by (rule save_post_result [OF u p t d1])
qed

lemma save_post_zero: "save_post d session pid (Some 0) = save_post d session pid None"
proof -
  have z: "falsy_id (Some 0) = True" and n: "falsy_id None = True"
    by (simp_all add: falsy_id_def)
  show ?thesis
    unfolding save_post_def z n if_True by (rule refl)
qed

text \<open>
  Claim C5, amended. For a logged-in user and a collection id that is present and not 0:
  \<open>save_post\<close> answers 404 when the post or the collection does not exist and 403 when the
  collection found belongs to another user, and in each of these cases the database is
  unchanged. A collection id of 0 is falsy and is handled exactly as an omitted one.
\<close>

theorem save_with_nonzero_collection_id_errors:
  assumes u: "load_user d session = Some u" and c: "c \<noteq> 0"
  shows "(find (\<lambda>p. p_id p = pid) (posts d) = None \<longrightarrow>
            save_post d session pid (Some c) = (Abort404, d))
   \<and> (find (\<lambda>p. p_id p = pid) (posts d) \<noteq> None \<longrightarrow> c \<notin> c_id ` set (collections d) \<longrightarrow>
            save_post d session pid (Some c) = (Abort404, d))
   \<and> (\<forall>col. find (\<lambda>p. p_id p = pid) (posts d) \<noteq> None \<longrightarrow>
            find (\<lambda>x. c_id x = c) (collections d) = Some col \<longrightarrow> c_user_id col \<noteq> u_id u \<longrightarrow>
            save_post d session pid (Some c) = (JsonError ''Unauthorized'' 403, d))
   \<and> status_code Abort404 = 404
   \<and> status_code (JsonError ''Unauthorized'' 403) = 403
   \<and> save_post d session pid (Some 0) = save_post d session pid None"
proof (intro conjI impI allI)
  assume "find (\<lambda>p. p_id p = pid) (posts d) = None"
  then show "save_post d session pid (Some c) = (Abort404, d)"
    using u by (simp add: save_post_no_post)
next
  assume "find (\<lambda>p. p_id p = pid) (posts d) \<noteq> None" and "c \<notin> c_id ` set (collections d)"
  then have "\<exists>p. find (\<lambda>p. p_id p = pid) (posts d) = Some p"
    and n: "find (\<lambda>x. c_id x = c) (collections d) = None"
    by (simp_all add: find_None_image [of c_id c])
  then obtain p where p: "find (\<lambda>p. p_id p = pid) (posts d) = Some p"
    by blast
  show "save_post d session pid (Some c) = (Abort404, d)"
    unfolding save_post_explicit [OF u p c] using n by simp
next
  fix col
  assume "find (\<lambda>p. p_id p = pid) (posts d) \<noteq> None"
    and f: "find (\<lambda>x. c_id x = c) (collections d) = Some col" and o: "c_user_id col \<noteq> u_id u"
  then obtain p where p: "find (\<lambda>p. p_id p = pid) (posts d) = Some p"
    by auto
  show "save_post d session pid (Some c) = (JsonError ''Unauthorized'' 403, d)"
    unfolding save_post_explicit [OF u p c] using f o by simp
next
  show "status_code Abort404 = 404" by (simp add: status_code_def)
next
  show "status_code (JsonError ''Unauthorized'' 403) = 403" by (simp add: status_code_def)
next
  show "save_post d session pid (Some 0) = save_post d session pid None"
    by (rule save_post_zero)
qed

text \<open>
  Claim C5, as stated, fails at the explicit collection id 0: no collection has the id 0,
  yet the call succeeds and inserts a Save row into the caller's default collection.
\<close>

theorem save_with_collection_id_zero_uses_default:
  "0 \<notin> set (map c_id (collections example_db0))
   \<and> save_post example_db0 (Some 1) 1 (Some 0) =
       (JsonSuccess,
        example_db0\<lparr>saves := [\<lparr>s_id = 1, s_post_id = 1, s_collection_id = 1\<rparr>]\<rparr>)"
proof -
  have a: "0 \<notin> set (map c_id (collections example_db0))"
    by (simp add: example_db0_value)
  have "save_post example_db0 (Some 1) 1 (Some 0) = save_post example_db0 (Some 1) 1 None"
    by (rule save_post_zero)
  also have "\<dots> = (fst (save_post example_db0 (Some 1) 1 None), example_db1)"
    by (simp add: example_db1_def)
  also have "fst (save_post example_db0 (Some 1) 1 None) = JsonSuccess"
    by code_simp
  finally show ?thesis
    using a by (simp add: example_db1_value)
qed

theorem save_with_nonzero_collection_id_errors_witness:
  "load_user example_db0 (Some 1) =
     Some \<lparr>u_id = 1, u_username = ''alice'', u_email = ''alice@x.com'',
           u_password_hash = ''pbkdf2:password123''\<rparr>
   \<and> 7 \<notin> c_id ` set (collections example_db0)
   \<and> save_post example_db0 (Some 1) 1 (Some 7) = (Abort404, example_db0)
   \<and> find (\<lambda>x. c_id x = 2) (collections example_db0) =
       Some \<lparr>c_id = 2, c_name = ''Saved'', c_description = ''Your saved pins'', c_user_id = 2\<rparr>
   \<and> save_post example_db0 (Some 1) 1 (Some 2) = (JsonError ''Unauthorized'' 403, example_db0)"
proof -
  let ?alice = "\<lparr>u_id = 1, u_username = ''alice'', u_email = ''alice@x.com'',
           u_password_hash = ''pbkdf2:password123''\<rparr>"
  let ?bobs = "\<lparr>c_id = 2, c_name = ''Saved'', c_description = ''Your saved pins'', c_user_id = 2\<rparr>"
  have u: "load_user example_db0 (Some 1) = Some ?alice"
    by (simp add: example_db0_value load_user_def)
  have p: "find (\<lambda>p. p_id p = 1) (posts example_db0) \<noteq> None"
    by (simp add: example_db0_value)
  have n7: "7 \<notin> c_id ` set (collections example_db0)"
    by (simp add: example_db0_value)
  have f2: "find (\<lambda>x. c_id x = 2) (collections example_db0) = Some ?bobs"
    by (simp add: example_db0_value)
  have o: "c_user_id ?bobs \<noteq> u_id ?alice" by simp
  have r7: "save_post example_db0 (Some 1) 1 (Some 7) = (Abort404, example_db0)"
    using save_with_nonzero_collection_id_errors [OF u, of 7 1, THEN conjunct2, THEN conjunct1] p n7 by simp
  have r2: "save_post example_db0 (Some 1) 1 (Some 2) = (JsonError ''Unauthorized'' 403, example_db0)"
    using save_with_nonzero_collection_id_errors [OF u, of 2 1, THEN conjunct2, THEN conjunct2, THEN conjunct1] p f2 o by simp
  show ?thesis
    by (intro conjI u n7 r7 f2 r2)
qed

section \<open>Nothing to remove\<close>

lemma delete_saves_nothing:
  "delete_saves d [] = (JsonError ''Post not saved to specified collection'' 404, d)"
  by (simp add: delete_saves_def)

lemma unsave_post_explicit:
  assumes "load_user d session = Some u" and "\<not> falsy_id cid"
  shows "unsave_post d session pid cid =
     (case find (\<lambda>c. c_id c = the cid) (collections d) of
        None \<Rightarrow> (Abort404, d)
      | Some col \<Rightarrow>
          if c_user_id col \<noteq> u_id u then (JsonError ''Unauthorized'' 403, d)
          else delete_saves d
                 (filter (\<lambda>s. s_post_id s = pid \<and> s_collection_id s = the cid) (saves d)))"
  using assms by (simp add: unsave_post_def)

lemma unsave_post_zero: "unsave_post d session pid (Some 0) = unsave_post d session pid None"
proof -
  have z: "falsy_id (Some 0) = True" and n: "falsy_id None = True"
    by (simp_all add: falsy_id_def)
  show ?thesis
    unfolding unsave_post_def z n if_True by (rule refl)
qed

lemma no_pair_filter:
  "(pid, c) \<notin> set (save_pairs d) \<Longrightarrow>
   filter (\<lambda>s. s_post_id s = pid \<and> s_collection_id s = c) (saves d) = []"
  by (auto simp: save_pairs_def filter_empty_conv)

text \<open>
  Claim C6, amended. For a logged-in user, with a collection id of 0 handled as an omitted
  one: when the id is omitted (or 0) and no Save row of the post lies in a collection of the
  user, or when the id names a collection of the user that does not hold the post,
  \<open>unsave_post\<close> answers with the 404 error and the database is unchanged. An id of no
  collection gives 404 and an id of another user's collection 403, the database unchanged
  as well.
\<close>

theorem unsave_nothing_matching_is_not_found:
  assumes u: "load_user d session = Some u"
  shows "(falsy_id cid \<longrightarrow>
          (\<forall>s\<in>set (saves d). \<not> (s_post_id s = pid \<and> owned_by d (u_id u) s)) \<longrightarrow>
          unsave_post d session pid cid =
            (JsonError ''Post not saved to specified collection'' 404, d))
   \<and> (\<forall>col. \<not> falsy_id cid \<longrightarrow>
          find (\<lambda>c. c_id c = the cid) (collections d) = Some col \<longrightarrow>
          c_user_id col = u_id u \<longrightarrow> (pid, the cid) \<notin> set (save_pairs d) \<longrightarrow>
          unsave_post d session pid cid =
            (JsonError ''Post not saved to specified collection'' 404, d))
   \<and> (\<not> falsy_id cid \<longrightarrow> the cid \<notin> c_id ` set (collections d) \<longrightarrow>
          unsave_post d session pid cid = (Abort404, d))
   \<and> (\<forall>col. \<not> falsy_id cid \<longrightarrow>
          find (\<lambda>c. c_id c = the cid) (collections d) = Some col \<longrightarrow>
          c_user_id col \<noteq> u_id u \<longrightarrow>
          unsave_post d session pid cid = (JsonError ''Unauthorized'' 403, d))
   \<and> status_code (JsonError ''Post not saved to specified collection'' 404) = 404
   \<and> unsave_post d session pid (Some 0) = unsave_post d session pid None"
proof (intro conjI impI allI)
  assume f: "falsy_id cid"
    and n: "\<forall>s\<in>set (saves d). \<not> (s_post_id s = pid \<and> owned_by d (u_id u) s)"
  have "filter (\<lambda>s. s_post_id s = pid \<and> owned_by d (u_id u) s) (saves d) = []"
    using n by (simp add: filter_empty_conv)
  then show "unsave_post d session pid cid =
            (JsonError ''Post not saved to specified collection'' 404, d)"
    unfolding unsave_post_everywhere [OF u f] by (simp add: delete_saves_nothing)
next
  fix col
  assume f: "\<not> falsy_id cid"
    and c: "find (\<lambda>c. c_id c = the cid) (collections d) = Some col" "c_user_id col = u_id u"
    and n: "(pid, the cid) \<notin> set (save_pairs d)"
  show "unsave_post d session pid cid =
            (JsonError ''Post not saved to specified collection'' 404, d)"
    unfolding unsave_post_explicit [OF u f]
    using c no_pair_filter [OF n] by (simp add: delete_saves_nothing)
next
  assume f: "\<not> falsy_id cid" and n: "the cid \<notin> c_id ` set (collections d)"
  have "find (\<lambda>c. c_id c = the cid) (collections d) = None"
    using n by (simp add: find_None_image [of c_id "the cid"])
  then show "unsave_post d session pid cid = (Abort404, d)"
    unfolding unsave_post_explicit [OF u f] by simp
next
  fix col
  assume f: "\<not> falsy_id cid"
    and c: "find (\<lambda>c. c_id c = the cid) (collections d) = Some col" "c_user_id col \<noteq> u_id u"
  show "unsave_post d session pid cid = (JsonError ''Unauthorized'' 403, d)"
    unfolding unsave_post_explicit [OF u f] using c by simp
next
  show "status_code (JsonError ''Post not saved to specified collection'' 404) = 404"
    by (simp add: status_code_def)
next
  show "unsave_post d session pid (Some 0) = unsave_post d session pid None"
    by (rule unsave_post_zero)
qed

lemma example_db1_unsave:
  "unsave_post example_db1 (Some 1) 1 None = (JsonSuccess, example_db1\<lparr>saves := []\<rparr>)"
  by code_simp

text \<open>
  Claim C6, as stated, fails at the supplied collection id 0: no Save row lies in a
  collection 0, yet the call succeeds and removes the row in the caller's collection 1.
\<close>

theorem unsave_with_collection_id_zero_removes_everywhere:
  "saves example_db1 = [\<lparr>s_id = 1, s_post_id = 1, s_collection_id = 1\<rparr>]
   \<and> (1, 0) \<notin> set (save_pairs example_db1)
   \<and> unsave_post example_db1 (Some 1) 1 (Some 0) = (JsonSuccess, example_db1\<lparr>saves := []\<rparr>)"
proof -
  have a: "saves example_db1 = [\<lparr>s_id = 1, s_post_id = 1, s_collection_id = 1\<rparr>]"
    by (simp add: example_db1_value)
  have b: "(1, 0) \<notin> set (save_pairs example_db1)"
    by (simp add: save_pairs_def a)
  have c: "unsave_post example_db1 (Some 1) 1 (Some 0) = (JsonSuccess, example_db1\<lparr>saves := []\<rparr>)"
    unfolding unsave_post_zero by (rule example_db1_unsave)
  show ?thesis by (intro conjI a b c)
qed

theorem unsave_nothing_matching_is_not_found_witness:
  "load_user example_db1 (Some 2) =
     Some \<lparr>u_id = 2, u_username = ''bob'', u_email = ''bob@x.com'',
           u_password_hash = ''pbkdf2:password456''\<rparr>
   \<and> falsy_id None
   \<and> unsave_post example_db1 (Some 2) 1 None =
       (JsonError ''Post not saved to specified collection'' 404, example_db1)
   \<and> find (\<lambda>c. c_id c = 2) (collections example_db1) =
       Some \<lparr>c_id = 2, c_name = ''Saved'', c_description = ''Your saved pins'', c_user_id = 2\<rparr>
   \<and> (1, 2) \<notin> set (save_pairs example_db1)
   \<and> unsave_post example_db1 (Some 2) 1 (Some 2) =
       (JsonError ''Post not saved to specified collection'' 404, example_db1)
   \<and> unsave_post example_db1 (Some 2) 1 (Some 7) = (Abort404, example_db1)
   \<and> unsave_post example_db1 (Some 2) 1 (Some 1) = (JsonError ''Unauthorized'' 403, example_db1)"
proof -
  let ?bob = "\<lparr>u_id = 2, u_username = ''bob'', u_email = ''bob@x.com'',
           u_password_hash = ''pbkdf2:password456''\<rparr>"
  let ?bobs = "\<lparr>c_id = 2, c_name = ''Saved'', c_description = ''Your saved pins'', c_user_id = 2\<rparr>"
  let ?alices = "\<lparr>c_id = 1, c_name = ''Saved'', c_description = ''Your saved pins'', c_user_id = 1\<rparr>"
  have v: "users example_db1 = users example_db0" "collections example_db1 = collections example_db0"
    "saves example_db1 = [\<lparr>s_id = 1, s_post_id = 1, s_collection_id = 1\<rparr>]"
    by (simp_all add: example_db1_value)
  have u: "load_user example_db1 (Some 2) = Some ?bob"
    by (simp add: load_user_def v example_db0_value)
  have f: "falsy_id None" by (simp add: falsy_id_def)
  have nf: "\<not> falsy_id (Some 2)" "\<not> falsy_id (Some 7)" "\<not> falsy_id (Some 1)"
    by (simp_all add: falsy_id_def)
  have no: "\<forall>s\<in>set (saves example_db1). \<not> (s_post_id s = 1 \<and> owned_by example_db1 (u_id ?bob) s)"
    by (simp add: v owned_by_def example_db0_value)
  have f2: "find (\<lambda>c. c_id c = 2) (collections example_db1) = Some ?bobs"
    by (simp add: v example_db0_value)
  have f1: "find (\<lambda>c. c_id c = 1) (collections example_db1) = Some ?alices"
    by (simp add: v example_db0_value)
  have n7: "7 \<notin> c_id ` set (collections example_db1)"
    by (simp add: v example_db0_value)
  have np: "(1, 2) \<notin> set (save_pairs example_db1)"
    by (simp add: save_pairs_def v)
  have r0: "unsave_post example_db1 (Some 2) 1 None =
       (JsonError ''Post not saved to specified collection'' 404, example_db1)"
    using unsave_nothing_matching_is_not_found [OF u, of None 1, THEN conjunct1] f no by blast
  have r2: "unsave_post example_db1 (Some 2) 1 (Some 2) =
       (JsonError ''Post not saved to specified collection'' 404, example_db1)"
    using unsave_nothing_matching_is_not_found [OF u, of "Some 2" 1, THEN conjunct2, THEN conjunct1] nf f2 np by simp
  have r7: "unsave_post example_db1 (Some 2) 1 (Some 7) = (Abort404, example_db1)"
    using unsave_nothing_matching_is_not_found [OF u, of "Some 7" 1, THEN conjunct2, THEN conjunct2, THEN conjunct1] nf n7 by simp
  have r1: "unsave_post example_db1 (Some 2) 1 (Some 1) = (JsonError ''Unauthorized'' 403, example_db1)"
    using unsave_nothing_matching_is_not_found [OF u, of "Some 1" 1, THEN conjunct2, THEN conjunct2, THEN conjunct2, THEN conjunct1]
      nf f1 by simp
  show ?thesis by (intro conjI u f r0 f2 np r2 r7 r1)
qed

end
